theory Spec2Isabelle
  imports Main "HOL-Library.Word"
begin

section \<open>Values crossing the request boundary\<close>

text \<open>
  The verifiers receive \<^verbatim>\<open>response: unknown\<close> and \<^verbatim>\<open>email: unknown\<close>: any
  JavaScript value. Objects are association lists from property names to values; an
  array is an object for \<^verbatim>\<open>typeof\<close> and has no own property \<^verbatim>\<open>id\<close>.
\<close>

datatype jsval =
    JUndefined
  | JNull
  | JBool bool
  | JNum int
  | JStr string
  | JArr "jsval list"
  | JObj "(string \<times> jsval) list"

type_synonym bytes = "8 word list"

text \<open>
  Everything that can be thrown. \<open>Collab\<close> is an exception raised inside a collaborator
  (the adapter or the ceremony library), \<open>TypeError\<close> is the runtime's own error for
  calling a missing method or reading a property of \<^verbatim>\<open>undefined\<close>. The error classes
  of \<^verbatim>\<open>../../errors\<close> wrap either a text or a caught value;
  \<open>MissingAdapterMethods\<close> is the configuration error of the capability assertion,
  with the methods found missing.
\<close>

datatype thrown =
    Collab string
  | TypeError string
  | MissingAdapter string
  | MissingAdapterMethods string "string list"
  | WebAuthnVerificationError cause
  | AdapterError cause
and cause =
    Text string
  | Caught thrown

datatype 'a outcome = Threw thrown | Returned 'a

text \<open>What the logger and the adapter see during one request, in order.\<close>

datatype event =
    Log_debug string "(string \<times> string) list"
  | Log_error thrown
  | Adapter_call string

section \<open>Data model\<close>

text \<open>\<^verbatim>\<open>RelayingPartyConfig\<close> and \<^verbatim>\<open>PasskeyConfig\<close> of providers/passkey.ts.\<close>

record relayingPartyConfig =
  rp_name :: string
  rp_id :: string
  rp_origin :: string

record passkeyConfig =
  p_id :: string
  p_name :: string
  p_type :: string
  relayingParty :: relayingPartyConfig

text \<open>\<^verbatim>\<open>PasskeyInputConfig\<close>: the relaying party is required, the rest is optional.\<close>

record passkeyInputConfig =
  in_id :: "string option"
  in_name :: "string option"
  in_type :: "string option"
  in_relayingParty :: relayingPartyConfig

text \<open>
  \<^verbatim>\<open>{ id: "passkey", name: "Passkey", ...config, type: "passkey" }\<close>: the spread
  overrides the defaults written before it and is overridden by what is written after.
\<close>

definition Passkey :: "passkeyInputConfig \<Rightarrow> passkeyConfig" where
  "Passkey config =
     \<lparr> p_id = (case in_id config of None \<Rightarrow> ''passkey'' | Some i \<Rightarrow> i),
       p_name = (case in_name config of None \<Rightarrow> ''Passkey'' | Some n \<Rightarrow> n),
       p_type = ''passkey'',
       relayingParty = in_relayingParty config \<rparr>"

record adapterUser =
  u_id :: string
  u_name :: "string option"
  u_email :: string
  u_emailVerified :: "string option"

record account =
  acc_userId :: string
  acc_type :: string
  acc_provider :: string
  acc_providerAccountId :: string

record authenticator =
  providerAccountId :: string
  counter :: nat
  credentialID :: bytes
  credentialBackedUp :: bool
  credentialDeviceType :: string
  credentialPublicKey :: bytes
  transports :: jsval

record userData =
  ud_user :: adapterUser
  ud_account :: account
  ud_authenticator :: "authenticator option"

text \<open>\<^verbatim>\<open>PasskeyOptionsCookieData\<close> of passkey/types.ts.\<close>

record passkeyOptionsCookieData =
  challenge :: string
  ck_providerAccountId :: "string option"

record cookie =
  cookie_name :: string
  cookie_value :: string

type_synonym cookies = "(string \<times> string) list"

section \<open>Collaborators\<close>

text \<open>
  The adapter is duck-typed: each method may be absent. A present method reads the
  storage \<open>'s\<close> and returns a value or throws; only \<^verbatim>\<open>updateAuthenticatorCounter\<close>
  returns a new storage (and may still throw).
\<close>

record 's adapter =
  getUserByEmail :: "(string \<Rightarrow> 's \<Rightarrow> thrown + adapterUser option) option"
  listLinkedAccounts :: "(string \<Rightarrow> 's \<Rightarrow> thrown + account list option) option"
  listAuthenticatorsByAccountId ::
    "(string \<Rightarrow> 's \<Rightarrow> thrown + authenticator list option) option"
  getAuthenticator :: "(bytes \<Rightarrow> 's \<Rightarrow> thrown + authenticator option) option"
  getUserByAccount :: "(string \<times> string \<Rightarrow> 's \<Rightarrow> thrown + adapterUser option) option"
  updateAuthenticatorCounter ::
    "(authenticator \<Rightarrow> nat \<Rightarrow> 's \<Rightarrow> thrown option \<times> 's) option"

record 's options =
  adapter :: "'s adapter option"
  provider :: passkeyConfig

text \<open>Arguments and results of the ceremony library (\<^verbatim>\<open>@simplewebauthn/server\<close>).\<close>

record verifyAuthenticationArgs =
  va_response :: jsval
  va_authenticator :: authenticator
  va_expectedChallenge :: string
  va_expectedOrigin :: string
  va_expectedRPID :: string
  va_requireUserVerification :: bool

record verifiedAuthenticationResponse =
  av_verified :: bool
  av_newCounter :: nat

record verifyRegistrationArgs =
  vr_response :: jsval
  vr_expectedChallenge :: string
  vr_expectedOrigin :: string
  vr_expectedRPID :: string
  vr_requireUserVerification :: bool

record registrationInfo =
  ri_counter :: nat
  ri_credentialID :: bytes
  ri_credentialBackedUp :: bool
  ri_credentialDeviceType :: string
  ri_credentialPublicKey :: bytes

record verifiedRegistrationResponse =
  rv_verified :: bool
  rv_registrationInfo :: "registrationInfo option"

record credentialDescriptor =
  cd_id :: bytes
  cd_type :: string
  cd_transports :: jsval

record authenticatorSelection =
  residentKey :: string
  userVerification :: string
  requireResidentKey :: bool

record generateAuthenticationArgs =
  ga_rpID :: string
  ga_allowCredentials :: "credentialDescriptor list option"
  ga_userVerification :: string

record generateRegistrationArgs =
  gr_userID :: string
  gr_userName :: "string option"
  gr_userDisplayName :: "string option"
  gr_rpID :: string
  gr_rpName :: string
  gr_excludeCredentials :: "credentialDescriptor list option"
  gr_authenticatorSelection :: authenticatorSelection

text \<open>
  The ceremony options are opaque to the orchestrator except for the challenge and, for
  registration, \<^verbatim>\<open>user.id\<close>.
\<close>

record requestOptionsJSON =
  ro_challenge :: string
  ro_rest :: jsval

record creationOptionsJSON =
  co_challenge :: string
  co_user_id :: string
  co_rest :: jsval

text \<open>
  The collaborators outside the adapter, as the request sees them. The cookie codec is
  taken as already applied to the secret of the options; \<open>message\<close> is the
  \<^verbatim>\<open>.message\<close> of an error object of \<^verbatim>\<open>../../errors\<close>; \<open>base64\<close> is
  \<^verbatim>\<open>new Uint8Array(Buffer.from(_, "base64"))\<close>. The two verification calls may throw:
  the source catches them. The others are taken to return.
\<close>

record env =
  decodeSignedCookie :: "string \<Rightarrow> cookies \<Rightarrow> passkeyOptionsCookieData option"
  signCookie :: "string \<Rightarrow> passkeyOptionsCookieData \<Rightarrow> cookie"
  verifyAuthenticationResponse ::
    "verifyAuthenticationArgs \<Rightarrow> thrown + verifiedAuthenticationResponse"
  verifyRegistrationResponse ::
    "verifyRegistrationArgs \<Rightarrow> thrown + verifiedRegistrationResponse"
  generateAuthenticationOptions :: "generateAuthenticationArgs \<Rightarrow> requestOptionsJSON"
  generateRegistrationOptions :: "generateRegistrationArgs \<Rightarrow> creationOptionsJSON"
  randomString :: "nat \<Rightarrow> string"
  base64 :: "string \<Rightarrow> bytes"
  message :: "thrown \<Rightarrow> string"

section \<open>Helpers of the runtime\<close>

text \<open>
  The basic response type check of both verifiers:
  \<^verbatim>\<open>typeof response !== "object" || response === null || !("id" in response) ||
  typeof response.id !== "string"\<close>. It yields the id when the check passes.
\<close>

fun responseId :: "jsval \<Rightarrow> string option" where
  "responseId (JObj fs) =
     (case map_of fs ''id'' of Some (JStr i) \<Rightarrow> Some i | _ \<Rightarrow> None)"
| "responseId _ = None"

text \<open>
  Reading a property: \<^verbatim>\<open>undefined\<close> and \<^verbatim>\<open>null\<close> throw, an object gives the
  property or \<^verbatim>\<open>undefined\<close>, and the other values have none of the properties read
  in this program (\<^verbatim>\<open>response\<close>, \<^verbatim>\<open>transports\<close>).
\<close>

fun js_member :: "jsval \<Rightarrow> string \<Rightarrow> thrown + jsval" where
  "js_member JUndefined k =
     Inl (TypeError (''Cannot read properties of undefined (reading '' @ k @ '')''))"
| "js_member JNull k =
     Inl (TypeError (''Cannot read properties of null (reading '' @ k @ '')''))"
| "js_member (JObj fs) k = Inr (case map_of fs k of None \<Rightarrow> JUndefined | Some v \<Rightarrow> v)"
| "js_member _ k = Inr JUndefined"

text \<open>Truthiness of an optional string: \<^verbatim>\<open>undefined\<close> and \<^verbatim>\<open>""\<close> are falsy.\<close>

fun truthy :: "string option \<Rightarrow> bool" where
  "truthy None = False"
| "truthy (Some s) = (s \<noteq> [])"

text \<open>
  Modelled from the spec: whether the adapter exposes a method, for the six methods
  this program asks for; it is the test inside \<^verbatim>\<open>assertAdapterImplementsMethods\<close>,
  which is not among the sources.
\<close>

definition adapter_implements :: "'s adapter \<Rightarrow> string \<Rightarrow> bool" where
  "adapter_implements a m =
     (if m = ''getUserByEmail'' then getUserByEmail a \<noteq> None
      else if m = ''listLinkedAccounts'' then listLinkedAccounts a \<noteq> None
      else if m = ''listAuthenticatorsByAccountId'' then listAuthenticatorsByAccountId a \<noteq> None
      else if m = ''getAuthenticator'' then getAuthenticator a \<noteq> None
      else if m = ''getUserByAccount'' then getUserByAccount a \<noteq> None
      else if m = ''updateAuthenticatorCounter'' then updateAuthenticatorCounter a \<noteq> None
      else False)"

text \<open>
  Modelled from the spec: \<^verbatim>\<open>assertAdapterImplementsMethods\<close> of \<^verbatim>\<open>../../adapters\<close>
  is not among the sources. The spec (4.2, 7, 9) has every operation first assert that
  the adapter exposes the methods it needs and fail fast with a configuration error if
  one of them is unimplemented. \<open>None\<close> is the normal return, \<open>Some\<close> the error thrown.
\<close>

definition assertAdapterImplementsMethods ::
  "string \<Rightarrow> 's adapter \<Rightarrow> string list \<Rightarrow> thrown option" where
  "assertAdapterImplementsMethods msg a methods =
     (case filter (\<lambda>m. \<not> adapter_implements a m) methods of
        [] \<Rightarrow> None
      | missing \<Rightarrow> Some (MissingAdapterMethods msg missing))"

text \<open>
  Calling an adapter method: a missing method is the runtime's TypeError and nothing is
  invoked; a present one is invoked, which the trace records.
\<close>

definition invoke ::
  "string \<Rightarrow> ('a \<Rightarrow> 's \<Rightarrow> thrown + 'b) option \<Rightarrow> 'a \<Rightarrow> 's \<Rightarrow> (thrown + 'b) \<times> event list" where
  "invoke m f x s =
     (case f of
        None \<Rightarrow> (Inl (TypeError (''adapter.'' @ m @ '' is not a function'')), [])
      | Some g \<Rightarrow> (g x s, [Adapter_call m]))"

section \<open>passkey/verify.ts\<close>

datatype verifyReturn = Str string | Data userData

text \<open>
  The block \<^verbatim>\<open>try { await adapter.updateAuthenticatorCounter(authenticator, newCounter) }
  catch (e) { logger.error(new AdapterError(e)) }\<close>: whatever is thrown is logged and
  swallowed; the storage is what the adapter left.
\<close>

definition updateCounterBlock ::
  "'s adapter \<Rightarrow> authenticator \<Rightarrow> nat \<Rightarrow> 's \<Rightarrow> event list \<times> 's" where
  "updateCounterBlock a au newCounter s =
     (case updateAuthenticatorCounter a of
        None \<Rightarrow>
          ([Log_error (AdapterError (Caught
              (TypeError ''adapter.updateAuthenticatorCounter is not a function'')))], s)
      | Some upd \<Rightarrow>
          (case upd au newCounter s of
             (None, s') \<Rightarrow> ([Adapter_call ''updateAuthenticatorCounter''], s')
           | (Some e, s') \<Rightarrow>
               ([Adapter_call ''updateAuthenticatorCounter'',
                 Log_error (AdapterError (Caught e))], s')))"

text \<open>The arguments of \<^verbatim>\<open>verifyAuthenticationResponse\<close>, as the source writes them.\<close>

definition verificationArgs ::
  "'s options \<Rightarrow> jsval \<Rightarrow> authenticator \<Rightarrow> passkeyOptionsCookieData \<Rightarrow> verifyAuthenticationArgs" where
  "verificationArgs opts response au ck =
     \<lparr> va_response = response, va_authenticator = au,
       va_expectedChallenge = challenge ck,
       va_expectedOrigin = rp_origin (relayingParty (provider opts)),
       va_expectedRPID = rp_id (relayingParty (provider opts)),
       va_requireUserVerification = True \<rparr>"

definition verifyAuthentication ::
  "env \<Rightarrow> 's options \<Rightarrow> cookies \<Rightarrow> jsval \<Rightarrow> 's \<Rightarrow> verifyReturn outcome \<times> event list \<times> 's" where
  "verifyAuthentication env opts reqCookies response s =
     (case adapter opts of
        None \<Rightarrow>
          (Threw (MissingAdapter ''WebaAuthn verifyAuthentication requires an adapter.''), [], s)
      | Some a \<Rightarrow>
     (case assertAdapterImplementsMethods
             ''WebaAuthn verifyAuthentication requires an adapter that implements'' a
             [''getAuthenticator'', ''getUserByAccount'', ''updateAuthenticatorCounter''] of
        Some err \<Rightarrow> (Threw err, [], s)
      | None \<Rightarrow>
     (case responseId response of
        None \<Rightarrow> (Returned (Str ''Invalid response.''), [], s)
      | Some rid \<Rightarrow>
     (case decodeSignedCookie env ''challenge'' reqCookies of
        None \<Rightarrow> (Returned (Str ''Missing challenge cookie.''), [], s)
      | Some ck \<Rightarrow>
     (case invoke ''getAuthenticator'' (getAuthenticator a) (base64 env rid) s of
        (Inl e, ev1) \<Rightarrow> (Threw e, ev1, s)
      | (Inr None, ev1) \<Rightarrow>
          (Returned (Str ''Authenticator not found.''),
           ev1 @ [Log_debug ''Authenticator not found.'' [(''id'', rid)]], s)
      | (Inr (Some au), ev1) \<Rightarrow>
     (case verifyAuthenticationResponse env (verificationArgs opts response au ck) of
        Inl e \<Rightarrow>
          (Returned (Str (message env (WebAuthnVerificationError (Caught e)))),
           ev1 @ [Log_error (WebAuthnVerificationError (Caught e))], s)
      | Inr verification \<Rightarrow>
          if \<not> av_verified verification
          then (Returned (Str ''Failed to verify response.''), ev1, s)
          else
     (case updateCounterBlock a au (av_newCounter verification) s of
        (ev2, s') \<Rightarrow>
     (case invoke ''getUserByAccount'' (getUserByAccount a)
             (p_id (provider opts), providerAccountId au) s' of
        (Inl e, ev3) \<Rightarrow> (Threw e, ev1 @ ev2 @ ev3, s')
      | (Inr None, ev3) \<Rightarrow>
          (Threw (WebAuthnVerificationError
                    (Text ''User not found. See debug logs for more details.'')),
           ev1 @ ev2 @ ev3 @
             [Log_debug (''User not found for account '' @ providerAccountId au @
                         ''. This should not happen.'')
                [(''provider'', p_id (provider opts)),
                 (''providerAccountId'', providerAccountId au)]], s')
      | (Inr (Some u), ev3) \<Rightarrow>
          (Returned (Data
             \<lparr> ud_user = u,
               ud_account =
                 \<lparr> acc_userId = u_id u, acc_type = p_type (provider opts),
                   acc_provider = p_id (provider opts),
                   acc_providerAccountId = providerAccountId au \<rparr>,
               ud_authenticator = None \<rparr>),
           ev1 @ ev2 @ ev3, s')))))))))"

text \<open>
  \<^verbatim>\<open>verifyRegistration\<close> destructures only \<^verbatim>\<open>provider\<close> and \<^verbatim>\<open>logger\<close> from the
  options. The last step reads \<^verbatim>\<open>response.response.transports\<close> through a type cast
  that checks nothing at run time.
\<close>

definition verifyRegistration ::
  "env \<Rightarrow> 's options \<Rightarrow> cookies \<Rightarrow> jsval \<Rightarrow> jsval \<Rightarrow> verifyReturn outcome \<times> event list" where
  "verifyRegistration env opts reqCookies response email =
     (case email of
        JStr em \<Rightarrow>
     (case responseId response of
        None \<Rightarrow> (Returned (Str ''Invalid response.''), [])
      | Some rid \<Rightarrow>
     (case decodeSignedCookie env ''challenge'' reqCookies of
        None \<Rightarrow> (Returned (Str ''Missing challenge cookie.''), [])
      | Some ck \<Rightarrow>
     (case (if truthy (ck_providerAccountId ck) then ck_providerAccountId ck else None) of
        None \<Rightarrow> (Returned (Str ''Missing providerAccountId from challenge cookie.''), [])
      | Some pid \<Rightarrow>
     (case verifyRegistrationResponse env
             \<lparr> vr_response = response,
               vr_expectedChallenge = challenge ck,
               vr_expectedOrigin = rp_origin (relayingParty (provider opts)),
               vr_expectedRPID = rp_id (relayingParty (provider opts)),
               vr_requireUserVerification = True \<rparr> of
        Inl e \<Rightarrow>
          (Returned (Str (message env (WebAuthnVerificationError (Caught e)))),
           [Log_error (WebAuthnVerificationError (Caught e))])
      | Inr verification \<Rightarrow>
     (case (if rv_verified verification then rv_registrationInfo verification else None) of
        None \<Rightarrow> (Returned (Str ''Failed to verify response.''), [])
      | Some info \<Rightarrow>
     (case js_member response ''response'' of
        Inl e \<Rightarrow> (Threw e, [])
      | Inr inner \<Rightarrow>
     (case js_member inner ''transports'' of
        Inl e \<Rightarrow> (Threw e, [])
      | Inr tr \<Rightarrow>
          (Returned (Data
             \<lparr> ud_user =
                 \<lparr> u_id = em, u_name = None, u_email = em, u_emailVerified = None \<rparr>,
               ud_account =
                 \<lparr> acc_userId = em, acc_type = p_type (provider opts),
                   acc_provider = p_id (provider opts), acc_providerAccountId = pid \<rparr>,
               ud_authenticator = Some
                 \<lparr> providerAccountId = pid,
                   counter = ri_counter info,
                   credentialID = ri_credentialID info,
                   credentialBackedUp = ri_credentialBackedUp info,
                   credentialDeviceType = ri_credentialDeviceType info,
                   credentialPublicKey = ri_credentialPublicKey info,
                   transports = tr \<rparr> \<rparr>), []))))))))
      | _ \<Rightarrow> (Returned (Str ''Email is required for registration.''), []))"

section \<open>passkey/options.ts\<close>

text \<open>
  The options side only reads the storage, so its functions return an outcome and no
  trace. \<open>call\<close> is \<open>invoke\<close> without the trace.
\<close>

definition call ::
  "string \<Rightarrow> ('a \<Rightarrow> 's \<Rightarrow> thrown + 'b) option \<Rightarrow> 'a \<Rightarrow> 's \<Rightarrow> thrown + 'b" where
  "call m f x s = fst (invoke m f x s)"

text \<open>
  \<^verbatim>\<open>email\<close> is optional here; the type cast of a caller can also hand over
  \<^verbatim>\<open>undefined\<close> where the signature says \<^verbatim>\<open>string\<close>.
\<close>

definition getUserAndAuthenticators ::
  "'s options \<Rightarrow> string option \<Rightarrow> 's \<Rightarrow> (authenticator list option \<times> adapterUser option) outcome" where
  "getUserAndAuthenticators opts email s =
     (case adapter opts of
        None \<Rightarrow> Threw (MissingAdapter ''WebaAuthn getUserAndAuthenticators requires an adapter.'')
      | Some a \<Rightarrow>
     (case assertAdapterImplementsMethods
             ''WebaAuthn getUserAndAuthenticators requires an adapter that implements'' a
             [''getUserByEmail'', ''listLinkedAccounts'', ''listAuthenticatorsByAccountId''] of
        Some err \<Rightarrow> Threw err
      | None \<Rightarrow>
     (case (case email of
              None \<Rightarrow> Inr None
            | Some e \<Rightarrow> if e = [] then Inr None else call ''getUserByEmail'' (getUserByEmail a) e s) of
        Inl e \<Rightarrow> Threw e
      | Inr user \<Rightarrow>
     (case (case user of
              None \<Rightarrow> Inr []
            | Some u \<Rightarrow>
                (case call ''listLinkedAccounts'' (listLinkedAccounts a) (u_id u) s of
                   Inl e \<Rightarrow> Inl e
                 | Inr None \<Rightarrow> Inr []
                 | Inr (Some l) \<Rightarrow> Inr l)) of
        Inl e \<Rightarrow> Threw e
      | Inr accounts \<Rightarrow>
     (case find (\<lambda>acc. acc_provider acc = p_id (provider opts)) accounts of
        None \<Rightarrow> Returned (None, user)
      | Some acc \<Rightarrow>
     (case call ''listAuthenticatorsByAccountId'' (listAuthenticatorsByAccountId a)
             (acc_providerAccountId acc) s of
        Inl e \<Rightarrow> Threw e
      | Inr authenticators \<Rightarrow> Returned (authenticators, user)))))))"

text \<open>The mapping \<^verbatim>\<open>(a) => ({ id: a.credentialID, type: "public-key", transports: a.transports })\<close>.\<close>

definition descriptor :: "authenticator \<Rightarrow> credentialDescriptor" where
  "descriptor a = \<lparr> cd_id = credentialID a, cd_type = ''public-key'', cd_transports = transports a \<rparr>"

definition authenticationOptions ::
  "env \<Rightarrow> 's options \<Rightarrow> string option \<Rightarrow> 's \<Rightarrow> requestOptionsJSON outcome" where
  "authenticationOptions env opts email s =
     (case getUserAndAuthenticators opts email s of
        Threw e \<Rightarrow> Threw e
      | Returned (authenticators, _) \<Rightarrow>
          Returned (generateAuthenticationOptions env
            \<lparr> ga_rpID = rp_id (relayingParty (provider opts)),
              ga_allowCredentials = map_option (map descriptor) authenticators,
              ga_userVerification = ''preferred'' \<rparr>))"

definition registrationOptions ::
  "env \<Rightarrow> 's options \<Rightarrow> string option \<Rightarrow> 's \<Rightarrow> creationOptionsJSON outcome" where
  "registrationOptions env opts email s =
     (case getUserAndAuthenticators opts email s of
        Threw e \<Rightarrow> Threw e
      | Returned (authenticators, user) \<Rightarrow>
          (let userID = (case user of None \<Rightarrow> randomString env 32 | Some u \<Rightarrow> u_id u);
               userName =
                 (case user of
                    None \<Rightarrow> email
                  | Some u \<Rightarrow> (case u_name u of None \<Rightarrow> Some (u_email u) | Some n \<Rightarrow> Some n));
               userDisplayName =
                 (case user of
                    None \<Rightarrow> userName
                  | Some u \<Rightarrow> (case u_name u of None \<Rightarrow> userName | Some n \<Rightarrow> Some n))
           in Returned (generateRegistrationOptions env
                \<lparr> gr_userID = userID,
                  gr_userName = userName,
                  gr_userDisplayName = userDisplayName,
                  gr_rpID = rp_id (relayingParty (provider opts)),
                  gr_rpName = rp_name (relayingParty (provider opts)),
                  gr_excludeCredentials = map_option (map descriptor) authenticators,
                  gr_authenticatorSelection =
                    \<lparr> residentKey = ''preferred'', userVerification = ''preferred'',
                      requireResidentKey = True \<rparr> \<rparr>)))"

section \<open>The options handlers\<close>

datatype ceremonyOptions = Creation creationOptionsJSON | Request requestOptionsJSON

datatype responseBody = Body_options ceremonyOptions string | Body_text string

record responseInternal =
  status :: nat
  body :: responseBody
  resp_cookies :: "cookie list option"

text \<open>
  The session is read through \<^verbatim>\<open>routesSession\<close>, a collaborator; the handlers are
  given its body. \<^verbatim>\<open>currentSession?.user?.email ?? undefined\<close>:
\<close>

record sessionUser =
  su_email :: "string option"

record session =
  s_user :: "sessionUser option"

definition sessionUserEmailOf :: "session option \<Rightarrow> string option" where
  "sessionUserEmailOf currentSession =
     (case currentSession of
        None \<Rightarrow> None
      | Some ses \<Rightarrow> (case s_user ses of None \<Rightarrow> None | Some u \<Rightarrow> su_email u))"

text \<open>\<^verbatim>\<open>a ?? b\<close> on optional strings: only \<^verbatim>\<open>undefined\<close> gives way, \<^verbatim>\<open>""\<close> does not.\<close>

definition nullish :: "string option \<Rightarrow> string option \<Rightarrow> string option" where
  "nullish a b = (case a of None \<Rightarrow> b | Some x \<Rightarrow> Some x)"

text \<open>
  \<^verbatim>\<open>!!(await adapter?.getUserByEmail(queryEmail))\<close>: no adapter gives \<^verbatim>\<open>undefined\<close>,
  an adapter without the method is a TypeError.
\<close>

definition userWithEmail :: "'s options \<Rightarrow> string \<Rightarrow> 's \<Rightarrow> bool outcome" where
  "userWithEmail opts queryEmail s =
     (case adapter opts of
        None \<Rightarrow> Returned False
      | Some a \<Rightarrow>
          (case call ''getUserByEmail'' (getUserByEmail a) queryEmail s of
             Inl e \<Rightarrow> Threw e
           | Inr u \<Rightarrow> Returned (u \<noteq> None)))"

text \<open>\<^verbatim>\<open>doRegister\<close> and \<^verbatim>\<open>doAuthenticate\<close> of the switch-based handler.\<close>

definition doRegister ::
  "env \<Rightarrow> 's options \<Rightarrow> string option \<Rightarrow> 's \<Rightarrow> responseInternal outcome" where
  "doRegister env opts email s =
     (case registrationOptions env opts email s of
        Threw e \<Rightarrow> Threw e
      | Returned regOptions \<Rightarrow>
          Returned
            \<lparr> status = 200,
              body = Body_options (Creation regOptions) ''register'',
              resp_cookies = Some [signCookie env ''challenge''
                \<lparr> challenge = co_challenge regOptions,
                  ck_providerAccountId = Some (co_user_id regOptions) \<rparr>] \<rparr>)"

definition doAuthenticate ::
  "env \<Rightarrow> 's options \<Rightarrow> string option \<Rightarrow> 's \<Rightarrow> responseInternal outcome" where
  "doAuthenticate env opts email s =
     (case authenticationOptions env opts email s of
        Threw e \<Rightarrow> Threw e
      | Returned authOptions \<Rightarrow>
          Returned
            \<lparr> status = 200,
              body = Body_options (Request authOptions) ''authenticate'',
              resp_cookies = Some [signCookie env ''challenge''
                \<lparr> challenge = ro_challenge authOptions,
                  ck_providerAccountId = None \<rparr>] \<rparr>)"

text \<open>
  The switch-based \<^verbatim>\<open>passkeyOptions\<close> (the handler that follows the type declarations
  of passkey/types.ts).
\<close>

definition passkeyOptions_switch ::
  "env \<Rightarrow> 's options \<Rightarrow> session option \<Rightarrow> string option \<Rightarrow> string option \<Rightarrow> 's
     \<Rightarrow> responseInternal outcome" where
  "passkeyOptions_switch env opts currentSession action queryEmail s =
     (let sessionUserEmail = sessionUserEmailOf currentSession;
          loggedIn = truthy sessionUserEmail;
          providedQueryEmail = truthy queryEmail;
          invalid = Returned \<lparr> status = 400, body = Body_text ''Invalid action/email combination'',
                               resp_cookies = None \<rparr>
      in
      (case (case queryEmail of
               None \<Rightarrow> Returned False
             | Some qe \<Rightarrow> if qe = [] then Returned False else userWithEmail opts qe s) of
         Threw e \<Rightarrow> Threw e
       | Returned userWithEmailExists \<Rightarrow>
           if action = Some ''authenticate'' then
             (if \<not> loggedIn then doAuthenticate env opts queryEmail s else invalid)
           else if action = Some ''register'' then
             (if loggedIn \<noteq> providedQueryEmail \<and> \<not> userWithEmailExists
              then doRegister env opts (nullish sessionUserEmail queryEmail) s
              else invalid)
           else if action = None then
             (if \<not> loggedIn then
                (if providedQueryEmail = userWithEmailExists
                 then doAuthenticate env opts queryEmail s
                 else doRegister env opts queryEmail s)
              else invalid)
           else invalid))"

text \<open>
  The if/else \<^verbatim>\<open>passkeyOptions\<close> of routes/passkey-options.ts. \<open>selectAction\<close> is its
  first half (\<^verbatim>\<open>if (!selectedAction) { ... }\<close>): \<open>Inl\<close> is an early return,
  \<open>Inr\<close> the selected action carried to the switch.
\<close>

definition selectAction ::
  "'s options \<Rightarrow> string option \<Rightarrow> string option \<Rightarrow> string option \<Rightarrow> 's
     \<Rightarrow> (responseInternal + string) outcome" where
  "selectAction opts sessionUserEmail action queryEmail s =
     (case (if truthy action then action else None) of
        Some selectedAction \<Rightarrow> Returned (Inr selectedAction)
      | None \<Rightarrow>
          if \<not> truthy sessionUserEmail then
            (case (if truthy queryEmail then queryEmail else None) of
               Some qe \<Rightarrow>
                 (case userWithEmail opts qe s of
                    Threw e \<Rightarrow> Threw e
                  | Returned exists \<Rightarrow>
                      Returned (Inr (if exists then ''authenticate'' else ''register'')))
             | None \<Rightarrow>
                 Returned (Inl \<lparr> status = 400, body = Body_text ''email is required to register'',
                                 resp_cookies = None \<rparr>))
          else
            (if truthy queryEmail then Returned (Inr ''register'')
             else Returned (Inl \<lparr> status = 400,
                                  body = Body_text ''email is required to register a new passkey'',
                                  resp_cookies = None \<rparr>)))"

definition passkeyOptions ::
  "env \<Rightarrow> 's options \<Rightarrow> session option \<Rightarrow> string option \<Rightarrow> string option \<Rightarrow> 's
     \<Rightarrow> responseInternal outcome" where
  "passkeyOptions env opts currentSession action queryEmail s =
     (let sessionUserEmail = sessionUserEmailOf currentSession;
          email = nullish sessionUserEmail queryEmail
      in
      (case selectAction opts sessionUserEmail action queryEmail s of
         Threw e \<Rightarrow> Threw e
       | Returned (Inl early) \<Rightarrow> Returned early
       | Returned (Inr selectedAction) \<Rightarrow>
           if selectedAction = ''authenticate'' then
             (case authenticationOptions env opts email s of
                Threw e \<Rightarrow> Threw e
              | Returned authOptions \<Rightarrow>
                  Returned
                    \<lparr> status = 200,
                      body = Body_options (Request authOptions) ''authenticate'',
                      resp_cookies = Some [signCookie env ''challenge''
                        \<lparr> challenge = ro_challenge authOptions,
                          ck_providerAccountId = None \<rparr>] \<rparr>)
           else if selectedAction = ''register'' then
             (if \<not> truthy email then
                Returned \<lparr> status = 400, body = Body_text ''email is required for registration'',
                           resp_cookies = None \<rparr>
              else
                (case registrationOptions env opts email s of
                   Threw e \<Rightarrow> Threw e
                 | Returned regOptions \<Rightarrow>
                     Returned
                       \<lparr> status = 200,
                         body = Body_options (Creation regOptions) ''register'',
                         resp_cookies = Some [signCookie env ''challenge''
                           \<lparr> challenge = co_challenge regOptions,
                             ck_providerAccountId = Some (co_user_id regOptions) \<rparr>] \<rparr>))
           else Returned \<lparr> status = 400, body = Body_text ''invalid action'',
                           resp_cookies = None \<rparr>))"

section \<open>The decision table of the options handler\<close>

datatype resolution = Authenticate | Register | Error string

definition resolutionOf :: "responseInternal \<Rightarrow> resolution" where
  "resolutionOf r =
     (case body r of
        Body_options _ a \<Rightarrow> (if a = ''authenticate'' then Authenticate else Register)
      | Body_text m \<Rightarrow> Error m)"




text \<open>
  An issued response: status 200, the ceremony options with their action, and exactly
  one cookie, signed under the name \<^verbatim>\<open>challenge\<close>, whose payload holds the challenge of
  those options; for registration also \<^verbatim>\<open>user.id\<close> of the options as
  \<^verbatim>\<open>providerAccountId\<close>, for authentication no \<^verbatim>\<open>providerAccountId\<close>.
\<close>

definition cookieMatchesOptions :: "env \<Rightarrow> responseInternal \<Rightarrow> bool" where
  "cookieMatchesOptions env resp =
     (case body resp of
        Body_options (Creation ro) a \<Rightarrow>
          status resp = 200 \<and> a = ''register'' \<and>
          resp_cookies resp = Some [signCookie env ''challenge''
            \<lparr> challenge = co_challenge ro, ck_providerAccountId = Some (co_user_id ro) \<rparr>]
      | Body_options (Request ao) a \<Rightarrow>
          status resp = 200 \<and> a = ''authenticate'' \<and>
          resp_cookies resp = Some [signCookie env ''challenge''
            \<lparr> challenge = ro_challenge ao, ck_providerAccountId = None \<rparr>]
      | Body_text m \<Rightarrow> False)"

section \<open>Predicates on a run\<close>

text \<open>The adapter has the three methods \<^verbatim>\<open>verifyAuthentication\<close> asks for.\<close>

definition implementsVerification :: "'s adapter \<Rightarrow> bool" where
  "implementsVerification a =
     (getAuthenticator a \<noteq> None \<and> getUserByAccount a \<noteq> None \<and>
      updateAuthenticatorCounter a \<noteq> None)"

text \<open>The adapter has the three methods the options side asks for.\<close>

definition implementsIssuance :: "'s adapter \<Rightarrow> bool" where
  "implementsIssuance a =
     (getUserByEmail a \<noteq> None \<and> listLinkedAccounts a \<noteq> None \<and>
      listAuthenticatorsByAccountId a \<noteq> None)"

text \<open>
  The ceremony library reports \<^verbatim>\<open>verified\<close> for this request: the adapter is
  capable, the request passes the shape check, carries a challenge cookie, names a
  stored authenticator, and the library accepts the response for that authenticator.
  The value is that authenticator and the counter the library returned.
\<close>

definition verifiedUpdate ::
  "env \<Rightarrow> 's options \<Rightarrow> cookies \<Rightarrow> jsval \<Rightarrow> 's \<Rightarrow> (authenticator \<times> nat) option" where
  "verifiedUpdate env opts reqCookies response s =
     (case adapter opts of
        None \<Rightarrow> None
      | Some a \<Rightarrow>
     (if \<not> implementsVerification a then None else
     (case responseId response of
        None \<Rightarrow> None
      | Some rid \<Rightarrow>
     (case decodeSignedCookie env ''challenge'' reqCookies of
        None \<Rightarrow> None
      | Some ck \<Rightarrow>
     (case getAuthenticator a of
        None \<Rightarrow> None
      | Some ga \<Rightarrow>
     (case ga (base64 env rid) s of
        Inr (Some au) \<Rightarrow>
          (case verifyAuthenticationResponse env (verificationArgs opts response au ck) of
             Inr v \<Rightarrow> (if av_verified v then Some (au, av_newCounter v) else None)
           | Inl e \<Rightarrow> None)
      | _ \<Rightarrow> None))))))"

fun isAdapterCall :: "event \<Rightarrow> bool" where
  "isAdapterCall (Adapter_call m) = True"
| "isAdapterCall _ = False"

section \<open>An adapter in memory\<close>

record store =
  users :: "adapterUser list"
  accounts :: "account list"
  authenticators :: "authenticator list"

text \<open>
  Modelled from the spec: the adapter's \<^verbatim>\<open>updateAuthenticatorCounter\<close>; the storage
  adapter is a collaborator and no implementation of it is among the sources. The spec
  (4.3 step 5, 5) has the adapter reject a counter update that does not strictly
  increase; the rejection is an exception, which is what the caller can log.
\<close>

definition updateAuthenticatorCounter_spec ::
  "authenticator \<Rightarrow> nat \<Rightarrow> store \<Rightarrow> thrown option \<times> store" where
  "updateAuthenticatorCounter_spec au newCounter s =
     (case find (\<lambda>x. credentialID x = credentialID au) (authenticators s) of
        None \<Rightarrow> (Some (Collab ''Authenticator not found''), s)
      | Some stored \<Rightarrow>
          if counter stored < newCounter
          then (None,
                s\<lparr> authenticators :=
                     map (\<lambda>x. if credentialID x = credentialID au
                              then x\<lparr> counter := newCounter \<rparr> else x)
                       (authenticators s) \<rparr>)
          else (Some (Collab ''Counter did not increase''), s))"

text \<open>
  Modelled from the spec: the adapter's lookup of a user by email (spec 2: the adapter
  is keyed by email, account id or credential id); no adapter is among the sources.
\<close>

definition memory_getUserByEmail :: "string \<Rightarrow> store \<Rightarrow> thrown + adapterUser option" where
  "memory_getUserByEmail e s = Inr (find (\<lambda>u. u_email u = e) (users s))"

text \<open>Modelled from the spec: the accounts linked to a user id.\<close>

definition memory_listLinkedAccounts :: "string \<Rightarrow> store \<Rightarrow> thrown + account list option" where
  "memory_listLinkedAccounts uid s = Inr (Some (filter (\<lambda>a. acc_userId a = uid) (accounts s)))"

text \<open>Modelled from the spec: the authenticators of an account.\<close>

definition memory_listAuthenticatorsByAccountId ::
  "string \<Rightarrow> store \<Rightarrow> thrown + authenticator list option" where
  "memory_listAuthenticatorsByAccountId pid s =
     Inr (Some (filter (\<lambda>a. providerAccountId a = pid) (authenticators s)))"

text \<open>Modelled from the spec: the authenticator with a credential id.\<close>

definition memory_getAuthenticator :: "bytes \<Rightarrow> store \<Rightarrow> thrown + authenticator option" where
  "memory_getAuthenticator cid s = Inr (find (\<lambda>a. credentialID a = cid) (authenticators s))"

text \<open>
  Modelled from the spec: the user owning the account with a given provider and
  providerAccountId.
\<close>

definition memory_getUserByAccount ::
  "string \<times> string \<Rightarrow> store \<Rightarrow> thrown + adapterUser option" where
  "memory_getUserByAccount k s =
     Inr (case find (\<lambda>a. acc_provider a = fst k \<and> acc_providerAccountId a = snd k)
                 (accounts s) of
            None \<Rightarrow> None
          | Some acc \<Rightarrow> find (\<lambda>u. u_id u = acc_userId acc) (users s))"

text \<open>
  Modelled from the spec: an adapter with all six methods, made of the functions above.
\<close>

definition memoryAdapter :: "store adapter" where
  "memoryAdapter =
     \<lparr> getUserByEmail = Some memory_getUserByEmail,
       listLinkedAccounts = Some memory_listLinkedAccounts,
       listAuthenticatorsByAccountId = Some memory_listAuthenticatorsByAccountId,
       getAuthenticator = Some memory_getAuthenticator,
       getUserByAccount = Some memory_getUserByAccount,
       updateAuthenticatorCounter = Some updateAuthenticatorCounter_spec \<rparr>"

text \<open>The stored counter of a credential.\<close>

definition storedCounter :: "store \<Rightarrow> bytes \<Rightarrow> nat option" where
  "storedCounter s cid =
     map_option counter (find (\<lambda>a. credentialID a = cid) (authenticators s))"

section \<open>A concrete deployment\<close>

text \<open>
  Stand-ins for the collaborators, to run the handlers on concrete requests: a codec
  that keeps the payload readable, a ceremony library that decides by a field of the
  response, fixed challenges.
\<close>

definition demo_member :: "jsval \<Rightarrow> string \<Rightarrow> jsval" where
  "demo_member v k = (case js_member v k of Inl _ \<Rightarrow> JUndefined | Inr x \<Rightarrow> x)"

definition demo_env :: env where
  "demo_env =
     \<lparr> decodeSignedCookie =
         (\<lambda>name cks. case map_of cks name of
                        None \<Rightarrow> None
                      | Some v \<Rightarrow> Some \<lparr> challenge = v,
                                         ck_providerAccountId = map_of cks ''providerAccountId'' \<rparr>),
       signCookie =
         (\<lambda>name d. \<lparr> cookie_name = name,
                      cookie_value = challenge d @ ''|'' @
                        (case ck_providerAccountId d of None \<Rightarrow> [] | Some p \<Rightarrow> p) \<rparr>),
       verifyAuthenticationResponse =
         (\<lambda>args. if demo_member (va_response args) ''signature'' = JStr ''valid''
                  then Inr \<lparr> av_verified = True,
                             av_newCounter =
                               (case demo_member (va_response args) ''counter'' of
                                  JNum n \<Rightarrow> nat n | _ \<Rightarrow> 0) \<rparr>
                  else if demo_member (va_response args) ''signature'' = JStr ''forged''
                  then Inr \<lparr> av_verified = False, av_newCounter = 0 \<rparr>
                  else Inl (Collab ''Unexpected authentication response'')),
       verifyRegistrationResponse =
         (\<lambda>args. if demo_member (vr_response args) ''signature'' = JStr ''valid''
                  then Inr \<lparr> rv_verified = True,
                             rv_registrationInfo = Some
                               \<lparr> ri_counter = 0, ri_credentialID = [1, 2, 3],
                                 ri_credentialBackedUp = False,
                                 ri_credentialDeviceType = ''singleDevice'',
                                 ri_credentialPublicKey = [9, 9] \<rparr> \<rparr>
                  else if demo_member (vr_response args) ''signature'' = JStr ''forged''
                  then Inr \<lparr> rv_verified = False, rv_registrationInfo = None \<rparr>
                  else Inl (Collab ''Unexpected registration response'')),
       generateAuthenticationOptions =
         (\<lambda>args. \<lparr> ro_challenge = ''challenge-A'', ro_rest = JNull \<rparr>),
       generateRegistrationOptions =
         (\<lambda>args. \<lparr> co_challenge = ''challenge-R'', co_user_id = gr_userID args,
                     co_rest = JNull \<rparr>),
       randomString = (\<lambda>n. replicate n CHR ''r''),
       base64 = map (\<lambda>c. of_nat (of_char c)),
       message = (\<lambda>e. ''WebAuthnVerificationError'') \<rparr>"

text \<open>
  A second ceremony library for the concrete deployment, whose options show what was
  asked of it: the credential lists and the authenticator selection are written into
  the opaque part of the options, as the JSON of the real options carries them.
\<close>

definition echo_descriptor :: "credentialDescriptor \<Rightarrow> jsval" where
  "echo_descriptor d =
     JObj [(''id'', JArr (map (\<lambda>b. JNum (uint b)) (cd_id d))),
           (''type'', JStr (cd_type d)),
           (''transports'', cd_transports d)]"

definition echo_credentials :: "credentialDescriptor list option \<Rightarrow> jsval" where
  "echo_credentials l =
     (case l of None \<Rightarrow> JUndefined | Some ds \<Rightarrow> JArr (map echo_descriptor ds))"

definition echo_env :: env where
  "echo_env =
     demo_env
       \<lparr> generateAuthenticationOptions :=
           (\<lambda>args. \<lparr> ro_challenge = ''challenge-A'',
                       ro_rest = JObj [(''rpId'', JStr (ga_rpID args)),
                                       (''allowCredentials'',
                                          echo_credentials (ga_allowCredentials args)),
                                       (''userVerification'',
                                          JStr (ga_userVerification args))] \<rparr>),
         generateRegistrationOptions :=
           (\<lambda>args. \<lparr> co_challenge = ''challenge-R'', co_user_id = gr_userID args,
                       co_rest = JObj [(''excludeCredentials'',
                                          echo_credentials (gr_excludeCredentials args)),
                                       (''residentKey'',
                                          JStr (residentKey (gr_authenticatorSelection args))),
                                       (''userVerification'',
                                          JStr (userVerification (gr_authenticatorSelection args))),
                                       (''requireResidentKey'',
                                          JBool (requireResidentKey
                                                   (gr_authenticatorSelection args)))] \<rparr>) \<rparr>"

definition demo_relayingParty :: relayingPartyConfig where
  "demo_relayingParty =
     \<lparr> rp_name = ''Example'', rp_id = ''example.com'', rp_origin = ''https://example.com'' \<rparr>"

definition demo_provider :: passkeyConfig where
  "demo_provider =
     Passkey \<lparr> in_id = None, in_name = None, in_type = None,
               in_relayingParty = demo_relayingParty \<rparr>"

definition demo_options :: "store options" where
  "demo_options = \<lparr> adapter = Some memoryAdapter, provider = demo_provider \<rparr>"

text \<open>One user with one passkey account and one authenticator, whose counter is \<open>c\<close>.\<close>

definition demo_authenticator :: "nat \<Rightarrow> authenticator" where
  "demo_authenticator c =
     \<lparr> providerAccountId = ''pa1'', counter = c, credentialID = [67],
       credentialBackedUp = False, credentialDeviceType = ''singleDevice'',
       credentialPublicKey = [9, 9], transports = JUndefined \<rparr>"

definition demo_user :: adapterUser where
  "demo_user =
     \<lparr> u_id = ''u1'', u_name = None, u_email = ''exists@x.com'', u_emailVerified = None \<rparr>"

definition demo_account :: account where
  "demo_account =
     \<lparr> acc_userId = ''u1'', acc_type = ''passkey'', acc_provider = ''passkey'',
       acc_providerAccountId = ''pa1'' \<rparr>"

definition demo_store :: "nat \<Rightarrow> store" where
  "demo_store c =
     \<lparr> users = [demo_user], accounts = [demo_account],
       authenticators = [demo_authenticator c] \<rparr>"

text \<open>A client response for credential id \<^verbatim>\<open>"C"\<close> (byte 67).\<close>

definition demo_response :: "string \<Rightarrow> int \<Rightarrow> jsval" where
  "demo_response sig n =
     JObj [(''id'', JStr ''C''), (''signature'', JStr sig), (''counter'', JNum n),
           (''response'', JObj [(''transports'', JArr [JStr ''usb''])])]"

definition demo_cookies :: cookies where
  "demo_cookies = [(''challenge'', ''challenge-A'')]"

definition demo_registration_cookies :: cookies where
  "demo_registration_cookies =
     [(''challenge'', ''challenge-R''), (''providerAccountId'', ''pa9'')]"




text \<open>A second authenticator of the same account, with another credential id.\<close>

definition demo_second_authenticator :: authenticator where
  "demo_second_authenticator =
     \<lparr> providerAccountId = ''pa1'', counter = 7, credentialID = [68],
       credentialBackedUp = True, credentialDeviceType = ''multiDevice'',
       credentialPublicKey = [8, 8], transports = JArr [JStr ''usb''] \<rparr>"


section \<open>Facts for running the concrete deployment\<close>

lemmas demo_deployment =
  demo_options_def memoryAdapter_def demo_env_def demo_provider_def Passkey_def
  demo_relayingParty_def demo_store_def demo_authenticator_def demo_user_def demo_account_def
  demo_response_def demo_member_def demo_cookies_def demo_registration_cookies_def
  memory_getUserByEmail_def memory_listLinkedAccounts_def
  memory_listAuthenticatorsByAccountId_def memory_getAuthenticator_def
  memory_getUserByAccount_def

lemmas issuance_defs =
  getUserAndAuthenticators_def assertAdapterImplementsMethods_def adapter_implements_def
  call_def invoke_def authenticationOptions_def registrationOptions_def descriptor_def
  userWithEmail_def


section \<open>The capability assertion\<close>

lemma assert_verification:
  "assertAdapterImplementsMethods msg a
     [''getAuthenticator'', ''getUserByAccount'', ''updateAuthenticatorCounter''] = None
   \<longleftrightarrow> implementsVerification a"
  by (simp add: assertAdapterImplementsMethods_def adapter_implements_def
        implementsVerification_def split: list.splits)

lemma assert_verification_fails:
  "\<not> implementsVerification a \<Longrightarrow>
   assertAdapterImplementsMethods msg a
     [''getAuthenticator'', ''getUserByAccount'', ''updateAuthenticatorCounter'']
       = Some (MissingAdapterMethods msg
           (filter (\<lambda>m. \<not> adapter_implements a m)
              [''getAuthenticator'', ''getUserByAccount'', ''updateAuthenticatorCounter'']))"
  by (auto simp: assertAdapterImplementsMethods_def adapter_implements_def
        implementsVerification_def split: list.splits)

lemma assert_verification_eq:
  "assertAdapterImplementsMethods msg a
     [''getAuthenticator'', ''getUserByAccount'', ''updateAuthenticatorCounter''] =
   (if implementsVerification a then None
    else Some (MissingAdapterMethods msg
           (filter (\<lambda>m. \<not> adapter_implements a m)
              [''getAuthenticator'', ''getUserByAccount'', ''updateAuthenticatorCounter''])))"
  using assert_verification [of msg a] assert_verification_fails [of a msg] by simp

lemma assert_issuance:
  "assertAdapterImplementsMethods msg a
     [''getUserByEmail'', ''listLinkedAccounts'', ''listAuthenticatorsByAccountId''] = None
   \<longleftrightarrow> implementsIssuance a"
  by (simp add: assertAdapterImplementsMethods_def adapter_implements_def
        implementsIssuance_def split: list.splits)

text \<open>
  Claim C4. \<^verbatim>\<open>verifyAuthentication\<close> fails as follows. Without an adapter, or with an
  adapter that lacks one of \<^verbatim>\<open>getAuthenticator\<close>, \<^verbatim>\<open>getUserByAccount\<close>,
  \<^verbatim>\<open>updateAuthenticatorCounter\<close>, it throws a configuration error whatever the request
  is, with nothing logged, no adapter method invoked and the storage untouched. With a
  capable adapter: a response that is not an object with a string \<^verbatim>\<open>id\<close> returns
  \<^verbatim>\<open>"Invalid response."\<close>; a missing challenge cookie returns
  \<^verbatim>\<open>"Missing challenge cookie."\<close>; an unknown credential id returns
  \<^verbatim>\<open>"Authenticator not found."\<close>; an exception of the ceremony library is wrapped,
  logged, and its message returned as a string; \<^verbatim>\<open>verified = false\<close> returns
  \<^verbatim>\<open>"Failed to verify response."\<close>. Each of these returns leaves the storage as it
  was.
\<close>

theorem verifyAuthentication_failures:
  "(adapter opts = None \<longrightarrow>
      verifyAuthentication env opts cks r s =
        (Threw (MissingAdapter ''WebaAuthn verifyAuthentication requires an adapter.''), [], s))
   \<and> (adapter opts = Some a \<and> \<not> implementsVerification a \<longrightarrow>
        verifyAuthentication env opts cks r s =
          (Threw (MissingAdapterMethods
             ''WebaAuthn verifyAuthentication requires an adapter that implements''
             (filter (\<lambda>m. \<not> adapter_implements a m)
                [''getAuthenticator'', ''getUserByAccount'', ''updateAuthenticatorCounter''])),
           [], s))
   \<and> (adapter opts = Some a \<and> implementsVerification a \<and> responseId r = None \<longrightarrow>
        verifyAuthentication env opts cks r s = (Returned (Str ''Invalid response.''), [], s))
   \<and> (adapter opts = Some a \<and> implementsVerification a \<and> responseId r = Some rid \<and>
        decodeSignedCookie env ''challenge'' cks = None \<longrightarrow>
        verifyAuthentication env opts cks r s = (Returned (Str ''Missing challenge cookie.''), [], s))
   \<and> (adapter opts = Some a \<and> implementsVerification a \<and> responseId r = Some rid \<and>
        decodeSignedCookie env ''challenge'' cks = Some ck \<and>
        getAuthenticator a = Some ga \<and> ga (base64 env rid) s = Inr None \<longrightarrow>
        verifyAuthentication env opts cks r s =
          (Returned (Str ''Authenticator not found.''),
           [Adapter_call ''getAuthenticator'', Log_debug ''Authenticator not found.'' [(''id'', rid)]],
           s))
   \<and> (adapter opts = Some a \<and> implementsVerification a \<and> responseId r = Some rid \<and>
        decodeSignedCookie env ''challenge'' cks = Some ck \<and>
        getAuthenticator a = Some ga \<and> ga (base64 env rid) s = Inr (Some au) \<and>
        verifyAuthenticationResponse env (verificationArgs opts r au ck) = Inl e \<longrightarrow>
        verifyAuthentication env opts cks r s =
          (Returned (Str (message env (WebAuthnVerificationError (Caught e)))),
           [Adapter_call ''getAuthenticator'', Log_error (WebAuthnVerificationError (Caught e))],
           s))
   \<and> (adapter opts = Some a \<and> implementsVerification a \<and> responseId r = Some rid \<and>
        decodeSignedCookie env ''challenge'' cks = Some ck \<and>
        getAuthenticator a = Some ga \<and> ga (base64 env rid) s = Inr (Some au) \<and>
        verifyAuthenticationResponse env (verificationArgs opts r au ck) = Inr v \<and>
        \<not> av_verified v \<longrightarrow>
        verifyAuthentication env opts cks r s =
          (Returned (Str ''Failed to verify response.''), [Adapter_call ''getAuthenticator''], s))"
proof -
  have missing: "adapter opts = Some a \<Longrightarrow> \<not> implementsVerification a \<Longrightarrow>
      verifyAuthentication env opts cks r s =
          (Threw (MissingAdapterMethods
             ''WebaAuthn verifyAuthentication requires an adapter that implements''
             (filter (\<lambda>m. \<not> adapter_implements a m)
                [''getAuthenticator'', ''getUserByAccount'', ''updateAuthenticatorCounter''])),
           [], s)"
    using assert_verification_fails [of a
        "''WebaAuthn verifyAuthentication requires an adapter that implements''"]
    by (simp add: verifyAuthentication_def)
  have ok: "implementsVerification a \<Longrightarrow> assertAdapterImplementsMethods
       ''WebaAuthn verifyAuthentication requires an adapter that implements'' a
       [''getAuthenticator'', ''getUserByAccount'', ''updateAuthenticatorCounter''] = None"
    by (simp add: assert_verification)
  show ?thesis
    using missing ok
    by (simp add: verifyAuthentication_def invoke_def)
qed


text \<open>The seven failures of C4, each on a concrete request.\<close>

theorem verifyAuthentication_failures_witness:
  "verifyAuthentication demo_env (demo_options\<lparr> adapter := None \<rparr>) demo_cookies
       (demo_response ''valid'' 6) (demo_store 5) =
     (Threw (MissingAdapter ''WebaAuthn verifyAuthentication requires an adapter.''), [],
      demo_store 5)
   \<and> verifyAuthentication demo_env
        (demo_options\<lparr> adapter := Some (memoryAdapter\<lparr> getUserByAccount := None \<rparr>) \<rparr>)
        demo_cookies (demo_response ''valid'' 6) (demo_store 5) =
      (Threw (MissingAdapterMethods
         ''WebaAuthn verifyAuthentication requires an adapter that implements''
         [''getUserByAccount'']), [], demo_store 5)
   \<and> verifyAuthentication demo_env demo_options demo_cookies (JObj [(''id'', JNum 7)])
       (demo_store 5) =
     (Returned (Str ''Invalid response.''), [], demo_store 5)
   \<and> verifyAuthentication demo_env demo_options [] (demo_response ''valid'' 6) (demo_store 5) =
     (Returned (Str ''Missing challenge cookie.''), [], demo_store 5)
   \<and> verifyAuthentication demo_env demo_options demo_cookies
       (JObj [(''id'', JStr ''Z''), (''signature'', JStr ''valid'')]) (demo_store 5) =
     (Returned (Str ''Authenticator not found.''),
      [Adapter_call ''getAuthenticator'', Log_debug ''Authenticator not found.'' [(''id'', ''Z'')]],
      demo_store 5)
   \<and> verifyAuthentication demo_env demo_options demo_cookies (demo_response ''garbled'' 6)
       (demo_store 5) =
     (Returned (Str ''WebAuthnVerificationError''),
      [Adapter_call ''getAuthenticator'',
       Log_error (WebAuthnVerificationError
         (Caught (Collab ''Unexpected authentication response'')))],
      demo_store 5)
   \<and> verifyAuthentication demo_env demo_options demo_cookies (demo_response ''forged'' 6)
       (demo_store 5) =
     (Returned (Str ''Failed to verify response.''), [Adapter_call ''getAuthenticator''],
      demo_store 5)"
proof -
  note fixture = demo_options_def memoryAdapter_def implementsVerification_def demo_env_def
    demo_cookies_def demo_response_def demo_store_def demo_authenticator_def demo_member_def
    verificationArgs_def memory_getAuthenticator_def
  let ?ga = memory_getAuthenticator
  let ?ck = "\<lparr> challenge = ''challenge-A'', ck_providerAccountId = None \<rparr>"
  have k1: "verifyAuthentication demo_env (demo_options\<lparr> adapter := None \<rparr>) demo_cookies
       (demo_response ''valid'' 6) (demo_store 5) =
     (Threw (MissingAdapter ''WebaAuthn verifyAuthentication requires an adapter.''), [],
      demo_store 5)"
    using verifyAuthentication_failures
      [where opts = "demo_options\<lparr> adapter := None \<rparr>" and env = demo_env
         and cks = demo_cookies and r = "demo_response ''valid'' 6" and s = "demo_store 5"
         and a = memoryAdapter and rid = "''C''" and ck = ?ck and ga = ?ga
         and au = "demo_authenticator 5" and e = "Collab []"
         and v = "\<lparr> av_verified = False, av_newCounter = 0 \<rparr>"]
    by simp
  have k2: "verifyAuthentication demo_env
        (demo_options\<lparr> adapter := Some (memoryAdapter\<lparr> getUserByAccount := None \<rparr>) \<rparr>)
        demo_cookies (demo_response ''valid'' 6) (demo_store 5) =
      (Threw (MissingAdapterMethods
         ''WebaAuthn verifyAuthentication requires an adapter that implements''
         [''getUserByAccount'']), [], demo_store 5)"
    using verifyAuthentication_failures
      [where opts = "demo_options\<lparr> adapter := Some (memoryAdapter\<lparr> getUserByAccount := None \<rparr>) \<rparr>"
         and env = demo_env
         and cks = demo_cookies and r = "demo_response ''valid'' 6" and s = "demo_store 5"
         and a = "memoryAdapter\<lparr> getUserByAccount := None \<rparr>" and rid = "''C''" and ck = ?ck
         and ga = ?ga and au = "demo_authenticator 5" and e = "Collab []"
         and v = "\<lparr> av_verified = False, av_newCounter = 0 \<rparr>"]
    by (simp add: implementsVerification_def memoryAdapter_def adapter_implements_def)
  have k3: "verifyAuthentication demo_env demo_options demo_cookies (JObj [(''id'', JNum 7)])
       (demo_store 5) = (Returned (Str ''Invalid response.''), [], demo_store 5)"
    using verifyAuthentication_failures
      [where opts = demo_options and env = demo_env
         and cks = demo_cookies and r = "JObj [(''id'', JNum 7)]" and s = "demo_store 5"
         and a = memoryAdapter and rid = "''C''" and ck = ?ck and ga = ?ga
         and au = "demo_authenticator 5" and e = "Collab []"
         and v = "\<lparr> av_verified = False, av_newCounter = 0 \<rparr>"]
    by (simp add: fixture)
  have k4: "verifyAuthentication demo_env demo_options [] (demo_response ''valid'' 6)
       (demo_store 5) = (Returned (Str ''Missing challenge cookie.''), [], demo_store 5)"
    using verifyAuthentication_failures
      [where opts = demo_options and env = demo_env
         and cks = "[]" and r = "demo_response ''valid'' 6" and s = "demo_store 5"
         and a = memoryAdapter and rid = "''C''" and ck = ?ck and ga = ?ga
         and au = "demo_authenticator 5" and e = "Collab []"
         and v = "\<lparr> av_verified = False, av_newCounter = 0 \<rparr>"]
    by (simp add: fixture)
  have k5: "verifyAuthentication demo_env demo_options demo_cookies
       (JObj [(''id'', JStr ''Z''), (''signature'', JStr ''valid'')]) (demo_store 5) =
     (Returned (Str ''Authenticator not found.''),
      [Adapter_call ''getAuthenticator'', Log_debug ''Authenticator not found.'' [(''id'', ''Z'')]],
      demo_store 5)"
    using verifyAuthentication_failures
      [where opts = demo_options and env = demo_env and cks = demo_cookies
         and r = "JObj [(''id'', JStr ''Z''), (''signature'', JStr ''valid'')]"
         and s = "demo_store 5"
         and a = memoryAdapter and rid = "''Z''" and ck = ?ck and ga = ?ga
         and au = "demo_authenticator 5" and e = "Collab []"
         and v = "\<lparr> av_verified = False, av_newCounter = 0 \<rparr>"]
    by (simp add: fixture)
  have k6: "verifyAuthentication demo_env demo_options demo_cookies (demo_response ''garbled'' 6)
       (demo_store 5) =
     (Returned (Str ''WebAuthnVerificationError''),
      [Adapter_call ''getAuthenticator'',
       Log_error (WebAuthnVerificationError
         (Caught (Collab ''Unexpected authentication response'')))],
      demo_store 5)"
    using verifyAuthentication_failures
      [where opts = demo_options and env = demo_env and cks = demo_cookies
         and r = "demo_response ''garbled'' 6" and s = "demo_store 5"
         and a = memoryAdapter and rid = "''C''" and ck = ?ck and ga = ?ga
         and au = "demo_authenticator 5"
         and e = "Collab ''Unexpected authentication response''"
         and v = "\<lparr> av_verified = False, av_newCounter = 0 \<rparr>"]
    by (simp add: fixture)
  have k7: "verifyAuthentication demo_env demo_options demo_cookies (demo_response ''forged'' 6)
       (demo_store 5) =
     (Returned (Str ''Failed to verify response.''), [Adapter_call ''getAuthenticator''],
      demo_store 5)"
    using verifyAuthentication_failures
      [where opts = demo_options and env = demo_env and cks = demo_cookies
         and r = "demo_response ''forged'' 6" and s = "demo_store 5"
         and a = memoryAdapter and rid = "''C''" and ck = ?ck and ga = ?ga
         and au = "demo_authenticator 5" and e = "Collab []"
         and v = "\<lparr> av_verified = False, av_newCounter = 0 \<rparr>"]
    by (simp add: fixture)
  from k1 k2 k3 k4 k5 k6 k7 show ?thesis by blast
qed

section \<open>Verification of an authentication response\<close>

lemma find_map_counter:
  "find (\<lambda>a. credentialID a = cid)
     (map (\<lambda>x. if credentialID x = cid then x\<lparr> counter := n \<rparr> else x) xs) =
   map_option (\<lambda>x. x\<lparr> counter := n \<rparr>) (find (\<lambda>a. credentialID a = cid) xs)"
  by (induction xs) auto

lemma update_spec_increase:
  "storedCounter s (credentialID au) = Some c \<Longrightarrow> c < n \<Longrightarrow>
   fst (updateAuthenticatorCounter_spec au n s) = None \<and>
   storedCounter (snd (updateAuthenticatorCounter_spec au n s)) (credentialID au) = Some n"
  by (auto simp: updateAuthenticatorCounter_spec_def storedCounter_def find_map_counter
        split: option.splits)

lemma update_spec_reject:
  "storedCounter s (credentialID au) = Some c \<Longrightarrow> n \<le> c \<Longrightarrow>
   updateAuthenticatorCounter_spec au n s = (Some (Collab ''Counter did not increase''), s)"
  by (auto simp: updateAuthenticatorCounter_spec_def storedCounter_def split: option.splits)

lemma update_spec_frame:
  "users (snd (updateAuthenticatorCounter_spec au n s)) = users s \<and>
   accounts (snd (updateAuthenticatorCounter_spec au n s)) = accounts s"
  by (simp add: updateAuthenticatorCounter_spec_def split: option.splits)

lemma memory_getUserByAccount_frame:
  "memory_getUserByAccount k (snd (updateAuthenticatorCounter_spec au n s)) =
   memory_getUserByAccount k s"
  by (simp add: memory_getUserByAccount_def update_spec_frame cong: option.case_cong)

lemma verified_run:
  assumes "adapter opts = Some a" "implementsVerification a" "responseId r = Some rid"
    "decodeSignedCookie env ''challenge'' cks = Some ck"
    "getAuthenticator a = Some ga" "ga (base64 env rid) s = Inr (Some au)"
    "verifyAuthenticationResponse env (verificationArgs opts r au ck) = Inr v"
    "av_verified v"
    "updateAuthenticatorCounter a = Some upd" "upd au (av_newCounter v) s = (failure, sa)"
    "getUserByAccount a = Some gu"
    "gu (p_id (provider opts), providerAccountId au) sa = Inr (Some u)"
  shows "verifyAuthentication env opts cks r s =
      (Returned (Data
         \<lparr> ud_user = u,
           ud_account =
             \<lparr> acc_userId = u_id u, acc_type = p_type (provider opts),
               acc_provider = p_id (provider opts),
               acc_providerAccountId = providerAccountId au \<rparr>,
           ud_authenticator = None \<rparr>),
       [Adapter_call ''getAuthenticator'', Adapter_call ''updateAuthenticatorCounter''] @
       (case failure of None \<Rightarrow> [] | Some e \<Rightarrow> [Log_error (AdapterError (Caught e))]) @
       [Adapter_call ''getUserByAccount''],
       sa)"
  using assms
  by (simp add: verifyAuthentication_def assert_verification_eq invoke_def
        updateCounterBlock_def split: option.splits)

text \<open>
  Claim C7. In \<^verbatim>\<open>verifyAuthentication\<close>, when the ceremony library has verified the
  response and the adapter resolves no user for (provider id, providerAccountId) of the
  matched authenticator, the function throws \<^verbatim>\<open>WebAuthnVerificationError("User not
  found. See debug logs for more details.")\<close> after a debug log; it does not return a
  string. Conversely every success value carries a user that the adapter resolved for
  the provider and providerAccountId of the returned account, so no request returns as
  authenticated with an orphaned identity.
\<close>

theorem verifyAuthentication_orphan_throws:
  "(adapter opts = Some a \<and> implementsVerification a \<and> responseId r = Some rid \<and>
    decodeSignedCookie env ''challenge'' cks = Some ck \<and>
    getAuthenticator a = Some ga \<and> ga (base64 env rid) s = Inr (Some au) \<and>
    verifyAuthenticationResponse env (verificationArgs opts r au ck) = Inr v \<and>
    av_verified v \<and>
    updateCounterBlock a au (av_newCounter v) s = (ev, sa) \<and>
    getUserByAccount a = Some gu \<and>
    gu (p_id (provider opts), providerAccountId au) sa = Inr None \<longrightarrow>
    verifyAuthentication env opts cks r s =
      (Threw (WebAuthnVerificationError
                (Text ''User not found. See debug logs for more details.'')),
       [Adapter_call ''getAuthenticator''] @ ev @
       [Adapter_call ''getUserByAccount'',
        Log_debug (''User not found for account '' @ providerAccountId au @
                   ''. This should not happen.'')
          [(''provider'', p_id (provider opts)),
           (''providerAccountId'', providerAccountId au)]],
       sa))
   \<and> (verifyAuthentication env opts cks r s = (Returned (Data d), tr, sb) \<longrightarrow>
        (\<exists>a gu. adapter opts = Some a \<and> getUserByAccount a = Some gu \<and>
           gu (acc_provider (ud_account d), acc_providerAccountId (ud_account d)) sb =
             Inr (Some (ud_user d))))"
proof -
  have ok: "implementsVerification a \<Longrightarrow> assertAdapterImplementsMethods
       ''WebaAuthn verifyAuthentication requires an adapter that implements'' a
       [''getAuthenticator'', ''getUserByAccount'', ''updateAuthenticatorCounter''] = None"
    by (simp add: assert_verification)
  have first: "adapter opts = Some a \<and> implementsVerification a \<and> responseId r = Some rid \<and>
    decodeSignedCookie env ''challenge'' cks = Some ck \<and>
    getAuthenticator a = Some ga \<and> ga (base64 env rid) s = Inr (Some au) \<and>
    verifyAuthenticationResponse env (verificationArgs opts r au ck) = Inr v \<and>
    av_verified v \<and>
    updateCounterBlock a au (av_newCounter v) s = (ev, sa) \<and>
    getUserByAccount a = Some gu \<and>
    gu (p_id (provider opts), providerAccountId au) sa = Inr None \<longrightarrow>
    verifyAuthentication env opts cks r s =
      (Threw (WebAuthnVerificationError
                (Text ''User not found. See debug logs for more details.'')),
       [Adapter_call ''getAuthenticator''] @ ev @
       [Adapter_call ''getUserByAccount'',
        Log_debug (''User not found for account '' @ providerAccountId au @
                   ''. This should not happen.'')
          [(''provider'', p_id (provider opts)),
           (''providerAccountId'', providerAccountId au)]],
       sa)"
    using ok by (simp add: verifyAuthentication_def invoke_def)
  have second: "verifyAuthentication env opts cks r s = (Returned (Data d), tr, sb) \<longrightarrow>
        (\<exists>a gu. adapter opts = Some a \<and> getUserByAccount a = Some gu \<and>
           gu (acc_provider (ud_account d), acc_providerAccountId (ud_account d)) sb =
             Inr (Some (ud_user d)))"
    by (auto simp: verifyAuthentication_def invoke_def
          split: option.splits sum.splits prod.splits if_splits)
  from first second show ?thesis by blast
qed

text \<open>An authenticator whose account is gone, and a success whose user the adapter resolved.\<close>

theorem verifyAuthentication_orphan_throws_witness:
  "verifyAuthentication demo_env demo_options demo_cookies (demo_response ''valid'' 6)
       ((demo_store 5)\<lparr> accounts := [] \<rparr>) =
     (Threw (WebAuthnVerificationError
               (Text ''User not found. See debug logs for more details.'')),
      [Adapter_call ''getAuthenticator'', Adapter_call ''updateAuthenticatorCounter'',
       Adapter_call ''getUserByAccount'',
       Log_debug ''User not found for account pa1. This should not happen.''
         [(''provider'', ''passkey''), (''providerAccountId'', ''pa1'')]],
      (demo_store 6)\<lparr> accounts := [] \<rparr>)
   \<and> verifyAuthentication demo_env demo_options demo_cookies (demo_response ''valid'' 6)
       (demo_store 5) =
     (Returned (Data \<lparr> ud_user = demo_user, ud_account = demo_account,
                        ud_authenticator = None \<rparr>),
      [Adapter_call ''getAuthenticator'', Adapter_call ''updateAuthenticatorCounter'',
       Adapter_call ''getUserByAccount''],
      demo_store 6)
   \<and> (\<exists>a gu. adapter demo_options = Some a \<and> getUserByAccount a = Some gu \<and>
         gu (''passkey'', ''pa1'') (demo_store 6) = Inr (Some demo_user))"
proof -
  note fixture = demo_options_def memoryAdapter_def implementsVerification_def demo_env_def
    demo_cookies_def demo_response_def demo_store_def demo_authenticator_def demo_member_def
    verificationArgs_def memory_getAuthenticator_def memory_getUserByAccount_def
    demo_provider_def Passkey_def demo_account_def demo_user_def
    updateAuthenticatorCounter_spec_def updateCounterBlock_def
  let ?ck = "\<lparr> challenge = ''challenge-A'', ck_providerAccountId = None \<rparr>"
  let ?d = "\<lparr> ud_user = demo_user, ud_account = demo_account, ud_authenticator = None \<rparr>"
  let ?calls = "[Adapter_call ''getAuthenticator'', Adapter_call ''updateAuthenticatorCounter'',
       Adapter_call ''getUserByAccount'']"
  have k: "verifyAuthentication demo_env demo_options demo_cookies (demo_response ''valid'' 6)
       ((demo_store 5)\<lparr> accounts := [] \<rparr>) =
     (Threw (WebAuthnVerificationError
               (Text ''User not found. See debug logs for more details.'')),
      [Adapter_call ''getAuthenticator'', Adapter_call ''updateAuthenticatorCounter'',
       Adapter_call ''getUserByAccount'',
       Log_debug ''User not found for account pa1. This should not happen.''
         [(''provider'', ''passkey''), (''providerAccountId'', ''pa1'')]],
      (demo_store 6)\<lparr> accounts := [] \<rparr>)"
    using verifyAuthentication_orphan_throws
      [where opts = demo_options and a = memoryAdapter and r = "demo_response ''valid'' 6"
         and rid = "''C''" and env = demo_env and cks = demo_cookies and ck = ?ck
         and ga = memory_getAuthenticator and s = "(demo_store 5)\<lparr> accounts := [] \<rparr>"
         and au = "demo_authenticator 5"
         and v = "\<lparr> av_verified = True, av_newCounter = 6 \<rparr>"
         and ev = "[Adapter_call ''updateAuthenticatorCounter'']"
         and sa = "(demo_store 6)\<lparr> accounts := [] \<rparr>"
         and gu = memory_getUserByAccount and d = ?d and tr = "[]" and sb = "demo_store 5"]
    by (simp add: fixture)
  have run: "verifyAuthentication demo_env demo_options demo_cookies (demo_response ''valid'' 6)
       (demo_store 5) = (Returned (Data ?d), ?calls, demo_store 6)"
    by (simp add: verifyAuthentication_def assert_verification_eq invoke_def fixture)
  have resolved: "\<exists>a gu. adapter demo_options = Some a \<and> getUserByAccount a = Some gu \<and>
         gu (''passkey'', ''pa1'') (demo_store 6) = Inr (Some demo_user)"
    using verifyAuthentication_orphan_throws
      [where opts = demo_options and a = memoryAdapter and r = "demo_response ''valid'' 6"
         and rid = "''C''" and env = demo_env and cks = demo_cookies and ck = ?ck
         and ga = memory_getAuthenticator and s = "demo_store 5"
         and au = "demo_authenticator 5"
         and v = "\<lparr> av_verified = True, av_newCounter = 6 \<rparr>"
         and ev = "[Adapter_call ''updateAuthenticatorCounter'']"
         and sa = "demo_store 6"
         and gu = memory_getUserByAccount and d = ?d and tr = ?calls and sb = "demo_store 6"]
      run
    by (simp add: demo_account_def)
  from k run resolved show ?thesis by blast
qed

text \<open>
  Claim C6. Neither verifier writes before verification succeeds. For
  \<^verbatim>\<open>verifyAuthentication\<close>: unless the library reported \<^verbatim>\<open>verified\<close> for the stored
  authenticator, the storage after the run is the storage before it and
  \<^verbatim>\<open>updateAuthenticatorCounter\<close> was not invoked; when it did, the storage after the run
  is what the adapter's counter update left; every return of an error string is a run
  in which the library did not verify; and the only adapter methods ever invoked are
  \<^verbatim>\<open>getAuthenticator\<close>, \<^verbatim>\<open>updateAuthenticatorCounter\<close> and \<^verbatim>\<open>getUserByAccount\<close>.
  \<^verbatim>\<open>verifyRegistration\<close> invokes no adapter method at all (it neither receives nor
  returns a storage).
\<close>

theorem no_write_before_verification:
  "(case verifyAuthentication env opts cks r s of
      (res, tr, s') \<Rightarrow>
        (case verifiedUpdate env opts cks r s of
           None \<Rightarrow> s' = s \<and> Adapter_call ''updateAuthenticatorCounter'' \<notin> set tr
         | Some (au, n) \<Rightarrow>
             (\<exists>a upd. adapter opts = Some a \<and> updateAuthenticatorCounter a = Some upd \<and>
                s' = snd (upd au n s)))
        \<and> (\<forall>m. res = Returned (Str m) \<longrightarrow> verifiedUpdate env opts cks r s = None)
        \<and> (\<forall>m. Adapter_call m \<in> set tr \<longrightarrow>
              m = ''getAuthenticator'' \<or> m = ''updateAuthenticatorCounter'' \<or>
              m = ''getUserByAccount''))
   \<and> (case verifyRegistration env opts cks r email of
        (res, tr) \<Rightarrow> \<forall>ev \<in> set tr. \<not> isAdapterCall ev)"
proof -
  let ?run = "verifyAuthentication env opts cks r s"
  have frame: "case verifiedUpdate env opts cks r s of
           None \<Rightarrow> snd (snd ?run) = s \<and>
             Adapter_call ''updateAuthenticatorCounter'' \<notin> set (fst (snd ?run))
         | Some (au, n) \<Rightarrow>
             (\<exists>a upd. adapter opts = Some a \<and> updateAuthenticatorCounter a = Some upd \<and>
                snd (snd ?run) = snd (upd au n s))"
    by (simp add: verifyAuthentication_def verifiedUpdate_def assert_verification_eq invoke_def
          updateCounterBlock_def implementsVerification_def
          split: option.split sum.split prod.split)
  have soft: "\<forall>m. fst ?run = Returned (Str m) \<longrightarrow> verifiedUpdate env opts cks r s = None"
    by (simp add: verifyAuthentication_def verifiedUpdate_def assert_verification_eq invoke_def
          split: option.split sum.split prod.split)
  have block: "updateCounterBlock a au n s = (ev, s') \<Longrightarrow> Adapter_call m \<in> set ev \<Longrightarrow>
      m = ''updateAuthenticatorCounter''" for m a au n ev s'
    by (auto simp: updateCounterBlock_def split: option.splits prod.splits)
  have calls: "\<forall>m. Adapter_call m \<in> set (fst (snd ?run)) \<longrightarrow>
      m = ''getAuthenticator'' \<or> m = ''updateAuthenticatorCounter'' \<or> m = ''getUserByAccount''"
    by (auto simp: verifyAuthentication_def invoke_def assert_verification_eq
          dest: block split: option.split sum.split prod.split)
  have reg: "\<forall>ev \<in> set (snd (verifyRegistration env opts cks r email)). \<not> isAdapterCall ev"
    by (simp add: verifyRegistration_def
          split: option.split sum.split prod.split jsval.split)
  show ?thesis using frame soft calls reg by (simp add: case_prod_beta)
qed

text \<open>A forged response leaves the storage alone; a valid one moves the counter from 5 to 6.\<close>

theorem no_write_before_verification_witness:
  "verifiedUpdate demo_env demo_options demo_cookies (demo_response ''forged'' 6) (demo_store 5)
     = None
   \<and> snd (snd (verifyAuthentication demo_env demo_options demo_cookies
         (demo_response ''forged'' 6) (demo_store 5))) = demo_store 5
   \<and> Adapter_call ''updateAuthenticatorCounter''
       \<notin> set (fst (snd (verifyAuthentication demo_env demo_options demo_cookies
         (demo_response ''forged'' 6) (demo_store 5))))
   \<and> verifiedUpdate demo_env demo_options demo_cookies (demo_response ''valid'' 6) (demo_store 5)
     = Some (demo_authenticator 5, 6)
   \<and> snd (snd (verifyAuthentication demo_env demo_options demo_cookies
         (demo_response ''valid'' 6) (demo_store 5))) = demo_store 6"
proof -
  note fixture = demo_options_def memoryAdapter_def implementsVerification_def demo_env_def
    demo_cookies_def demo_response_def demo_store_def demo_authenticator_def demo_member_def
    verificationArgs_def memory_getAuthenticator_def memory_getUserByAccount_def
    demo_provider_def Passkey_def demo_account_def demo_user_def
    updateAuthenticatorCounter_spec_def verifiedUpdate_def
  have v1: "verifiedUpdate demo_env demo_options demo_cookies (demo_response ''forged'' 6)
      (demo_store 5) = None"
    by (simp add: fixture)
  have v2: "verifiedUpdate demo_env demo_options demo_cookies (demo_response ''valid'' 6)
      (demo_store 5) = Some (demo_authenticator 5, 6)"
    by (simp add: fixture)
  have k1: "snd (snd (verifyAuthentication demo_env demo_options demo_cookies
         (demo_response ''forged'' 6) (demo_store 5))) = demo_store 5
     \<and> Adapter_call ''updateAuthenticatorCounter''
       \<notin> set (fst (snd (verifyAuthentication demo_env demo_options demo_cookies
         (demo_response ''forged'' 6) (demo_store 5))))"
    using no_write_before_verification
      [where env = demo_env and opts = demo_options and cks = demo_cookies
         and r = "demo_response ''forged'' 6" and s = "demo_store 5" and email = JNull] v1
    by (simp add: case_prod_beta)
  have k2: "snd (snd (verifyAuthentication demo_env demo_options demo_cookies
         (demo_response ''valid'' 6) (demo_store 5))) = demo_store 6"
    using no_write_before_verification
      [where env = demo_env and opts = demo_options and cks = demo_cookies
         and r = "demo_response ''valid'' 6" and s = "demo_store 5" and email = JNull] v2
    by (simp add: case_prod_beta demo_options_def memoryAdapter_def
          updateAuthenticatorCounter_spec_def demo_store_def demo_authenticator_def)
  from v1 v2 k1 k2 show ?thesis by blast
qed

text \<open>
  Claim C10. \<^verbatim>\<open>verifyRegistration\<close> never looks at the adapter: replacing
  \<^verbatim>\<open>options.adapter\<close> by anything, defined or not, gives the same result and the same
  log, and it never throws a missing-adapter or missing-method error. In contrast
  \<^verbatim>\<open>verifyAuthentication\<close> and the options side (\<^verbatim>\<open>getUserAndAuthenticators\<close>) throw
  \<^verbatim>\<open>MissingAdapter\<close> at once when there is no adapter.
\<close>

theorem verifyRegistration_ignores_adapter:
  "verifyRegistration env (opts\<lparr> adapter := ad \<rparr>) cks r email =
     verifyRegistration env (opts\<lparr> adapter := ae \<rparr>) cks r email
   \<and> (\<forall>m. fst (verifyRegistration env opts cks r email) \<noteq> Threw (MissingAdapter m))
   \<and> (\<forall>m ms. fst (verifyRegistration env opts cks r email) \<noteq> Threw (MissingAdapterMethods m ms))
   \<and> fst (verifyAuthentication env (opts\<lparr> adapter := None \<rparr>) cks r s) =
       Threw (MissingAdapter ''WebaAuthn verifyAuthentication requires an adapter.'')
   \<and> getUserAndAuthenticators (opts\<lparr> adapter := None \<rparr>) queryEmail s =
       Threw (MissingAdapter ''WebaAuthn getUserAndAuthenticators requires an adapter.'')"
proof -
  have indep: "verifyRegistration env (opts\<lparr> adapter := ad \<rparr>) cks r email =
     verifyRegistration env (opts\<lparr> adapter := ae \<rparr>) cks r email"
    by (simp add: verifyRegistration_def
          cong: jsval.case_cong option.case_cong sum.case_cong)
  have member_type: "js_member x k = Inl e \<Longrightarrow> \<exists>t. e = TypeError t" for x k e
    by (cases x) auto
  have nothrow: "fst (verifyRegistration env opts cks r email) = Threw e \<Longrightarrow> \<exists>t. e = TypeError t"
    for e
    by (auto simp: verifyRegistration_def dest: member_type
          split: option.splits sum.splits prod.splits if_splits jsval.splits)
  have auth: "fst (verifyAuthentication env (opts\<lparr> adapter := None \<rparr>) cks r s) =
       Threw (MissingAdapter ''WebaAuthn verifyAuthentication requires an adapter.'')"
    by (simp add: verifyAuthentication_def)
  have iss: "getUserAndAuthenticators (opts\<lparr> adapter := None \<rparr>) queryEmail s =
       Threw (MissingAdapter ''WebaAuthn getUserAndAuthenticators requires an adapter.'')"
    by (simp add: getUserAndAuthenticators_def)
  from indep nothrow auth iss show ?thesis by fastforce
qed

text \<open>
  Claim C2. After a successful verification the counter update to the library's
  \<^verbatim>\<open>newCounter\<close> is handed to the adapter, and whatever the adapter throws is logged as
  an \<^verbatim>\<open>AdapterError\<close> without changing the result: \<^verbatim>\<open>verifyAuthentication\<close> still
  returns \<^verbatim>\<open>{user, account}\<close> (first part, for every adapter). With the adapter of the
  specification, which rejects an update that does not strictly increase, and a stored
  authenticator with counter \<open>c\<close>: the update is applied exactly when
  \<^verbatim>\<open>newCounter > c\<close> (the stored counter becomes \<^verbatim>\<open>newCounter\<close> and no error is
  logged); otherwise the storage is unchanged and the rejection is logged; in both
  cases the success value is returned (second part).
\<close>

theorem counter_update_nonfatal_and_monotone:
  "(adapter opts = Some a \<and> implementsVerification a \<and> responseId r = Some rid \<and>
    decodeSignedCookie env ''challenge'' cks = Some ck \<and>
    getAuthenticator a = Some ga \<and> ga (base64 env rid) s = Inr (Some au) \<and>
    verifyAuthenticationResponse env (verificationArgs opts r au ck) = Inr v \<and>
    av_verified v \<and>
    updateAuthenticatorCounter a = Some upd \<and> upd au (av_newCounter v) s = (failure, sa) \<and>
    getUserByAccount a = Some gu \<and>
    gu (p_id (provider opts), providerAccountId au) sa = Inr (Some u) \<longrightarrow>
    verifyAuthentication env opts cks r s =
      (Returned (Data
         \<lparr> ud_user = u,
           ud_account =
             \<lparr> acc_userId = u_id u, acc_type = p_type (provider opts),
               acc_provider = p_id (provider opts),
               acc_providerAccountId = providerAccountId au \<rparr>,
           ud_authenticator = None \<rparr>),
       [Adapter_call ''getAuthenticator'', Adapter_call ''updateAuthenticatorCounter''] @
       (case failure of None \<Rightarrow> [] | Some e \<Rightarrow> [Log_error (AdapterError (Caught e))]) @
       [Adapter_call ''getUserByAccount''],
       sa))
   \<and> (adapter mopts = Some memoryAdapter \<and> responseId r = Some rid \<and>
       decodeSignedCookie env ''challenge'' cks = Some ck \<and>
       memory_getAuthenticator (base64 env rid) ms = Inr (Some au) \<and>
       verifyAuthenticationResponse env (verificationArgs mopts r au ck) = Inr v \<and>
       av_verified v \<and>
       memory_getUserByAccount (p_id (provider mopts), providerAccountId au) ms = Inr (Some u)
       \<longrightarrow>
       fst (verifyAuthentication env mopts cks r ms) =
         Returned (Data
           \<lparr> ud_user = u,
             ud_account =
               \<lparr> acc_userId = u_id u, acc_type = p_type (provider mopts),
                 acc_provider = p_id (provider mopts),
                 acc_providerAccountId = providerAccountId au \<rparr>,
             ud_authenticator = None \<rparr>)
       \<and> storedCounter ms (credentialID au) = Some (counter au)
       \<and> (counter au < av_newCounter v \<longrightarrow>
            storedCounter (snd (snd (verifyAuthentication env mopts cks r ms))) (credentialID au)
              = Some (av_newCounter v) \<and>
            (\<forall>e. Log_error e \<notin> set (fst (snd (verifyAuthentication env mopts cks r ms)))))
       \<and> (av_newCounter v \<le> counter au \<longrightarrow>
            snd (snd (verifyAuthentication env mopts cks r ms)) = ms \<and>
            Log_error (AdapterError (Caught (Collab ''Counter did not increase'')))
              \<in> set (fst (snd (verifyAuthentication env mopts cks r ms)))))"
proof -
  have general: "adapter opts = Some a \<and> implementsVerification a \<and> responseId r = Some rid \<and>
    decodeSignedCookie env ''challenge'' cks = Some ck \<and>
    getAuthenticator a = Some ga \<and> ga (base64 env rid) s = Inr (Some au) \<and>
    verifyAuthenticationResponse env (verificationArgs opts r au ck) = Inr v \<and>
    av_verified v \<and>
    updateAuthenticatorCounter a = Some upd \<and> upd au (av_newCounter v) s = (failure, sa) \<and>
    getUserByAccount a = Some gu \<and>
    gu (p_id (provider opts), providerAccountId au) sa = Inr (Some u) \<longrightarrow>
    verifyAuthentication env opts cks r s =
      (Returned (Data
         \<lparr> ud_user = u,
           ud_account =
             \<lparr> acc_userId = u_id u, acc_type = p_type (provider opts),
               acc_provider = p_id (provider opts),
               acc_providerAccountId = providerAccountId au \<rparr>,
           ud_authenticator = None \<rparr>),
       [Adapter_call ''getAuthenticator'', Adapter_call ''updateAuthenticatorCounter''] @
       (case failure of None \<Rightarrow> [] | Some e \<Rightarrow> [Log_error (AdapterError (Caught e))]) @
       [Adapter_call ''getUserByAccount''],
       sa)"
    using verified_run [of opts a r rid env cks ck ga s au v upd failure sa gu u] by blast
  have memory: "fst (verifyAuthentication env mopts cks r ms) =
         Returned (Data
           \<lparr> ud_user = u,
             ud_account =
               \<lparr> acc_userId = u_id u, acc_type = p_type (provider mopts),
                 acc_provider = p_id (provider mopts),
                 acc_providerAccountId = providerAccountId au \<rparr>,
             ud_authenticator = None \<rparr>)
       \<and> storedCounter ms (credentialID au) = Some (counter au)
       \<and> (counter au < av_newCounter v \<longrightarrow>
            storedCounter (snd (snd (verifyAuthentication env mopts cks r ms))) (credentialID au)
              = Some (av_newCounter v) \<and>
            (\<forall>e. Log_error e \<notin> set (fst (snd (verifyAuthentication env mopts cks r ms)))))
       \<and> (av_newCounter v \<le> counter au \<longrightarrow>
            snd (snd (verifyAuthentication env mopts cks r ms)) = ms \<and>
            Log_error (AdapterError (Caught (Collab ''Counter did not increase'')))
              \<in> set (fst (snd (verifyAuthentication env mopts cks r ms))))"
    if h: "adapter mopts = Some memoryAdapter" "responseId r = Some rid"
       "decodeSignedCookie env ''challenge'' cks = Some ck"
       "memory_getAuthenticator (base64 env rid) ms = Inr (Some au)"
       "verifyAuthenticationResponse env (verificationArgs mopts r au ck) = Inr v"
       "av_verified v"
       "memory_getUserByAccount (p_id (provider mopts), providerAccountId au) ms = Inr (Some u)"
  proof -
    let ?n = "av_newCounter v"
    let ?upd = "updateAuthenticatorCounter_spec au ?n ms"
    have impl: "implementsVerification memoryAdapter"
      by (simp add: implementsVerification_def memoryAdapter_def)
    have found: "find (\<lambda>x. credentialID x = base64 env rid) (authenticators ms) = Some au"
      using h(4) by (simp add: memory_getAuthenticator_def)
    then have cid: "credentialID au = base64 env rid"
      by (auto simp: find_Some_iff)
    have stored: "storedCounter ms (credentialID au) = Some (counter au)"
      using found cid by (simp add: storedCounter_def)
    have user: "memory_getUserByAccount (p_id (provider mopts), providerAccountId au) (snd ?upd)
        = Inr (Some u)"
      using h(7) by (simp add: memory_getUserByAccount_frame)
    have run: "verifyAuthentication env mopts cks r ms =
      (Returned (Data
         \<lparr> ud_user = u,
           ud_account =
             \<lparr> acc_userId = u_id u, acc_type = p_type (provider mopts),
               acc_provider = p_id (provider mopts),
               acc_providerAccountId = providerAccountId au \<rparr>,
           ud_authenticator = None \<rparr>),
       [Adapter_call ''getAuthenticator'', Adapter_call ''updateAuthenticatorCounter''] @
       (case fst ?upd of None \<Rightarrow> [] | Some e \<Rightarrow> [Log_error (AdapterError (Caught e))]) @
       [Adapter_call ''getUserByAccount''],
       snd ?upd)"
      by (rule verified_run [where a = memoryAdapter and ga = memory_getAuthenticator
            and upd = updateAuthenticatorCounter_spec and gu = memory_getUserByAccount
            and rid = rid and ck = ck and v = v])
         (use h impl user in \<open>simp_all add: memoryAdapter_def\<close>)
    have up: "counter au < ?n \<Longrightarrow> fst ?upd = None \<and>
        storedCounter (snd ?upd) (credentialID au) = Some ?n"
      using update_spec_increase [OF stored] by simp
    have rej: "?n \<le> counter au \<Longrightarrow> ?upd = (Some (Collab ''Counter did not increase''), ms)"
      using update_spec_reject [OF stored] by simp
    show ?thesis
      using run stored up rej by auto
  qed
  from general memory show ?thesis by blast
qed

text \<open>Stored counter 5: a response reporting 4 is rejected and logged, one reporting 6 persists.\<close>

theorem counter_update_nonfatal_and_monotone_witness:
  "verifyAuthentication demo_env demo_options demo_cookies (demo_response ''valid'' 4)
       (demo_store 5) =
     (Returned (Data \<lparr> ud_user = demo_user, ud_account = demo_account,
                        ud_authenticator = None \<rparr>),
      [Adapter_call ''getAuthenticator'', Adapter_call ''updateAuthenticatorCounter'',
       Log_error (AdapterError (Caught (Collab ''Counter did not increase''))),
       Adapter_call ''getUserByAccount''],
      demo_store 5)
   \<and> fst (verifyAuthentication demo_env demo_options demo_cookies (demo_response ''valid'' 6)
       (demo_store 5)) =
     Returned (Data \<lparr> ud_user = demo_user, ud_account = demo_account,
                       ud_authenticator = None \<rparr>)
   \<and> storedCounter (demo_store 5) [67] = Some 5
   \<and> storedCounter
       (snd (snd (verifyAuthentication demo_env demo_options demo_cookies
          (demo_response ''valid'' 6) (demo_store 5)))) [67] = Some 6"
proof -
  note fixture = demo_options_def memoryAdapter_def implementsVerification_def demo_env_def
    demo_cookies_def demo_response_def demo_store_def demo_authenticator_def demo_member_def
    verificationArgs_def memory_getAuthenticator_def memory_getUserByAccount_def
    demo_provider_def Passkey_def demo_account_def demo_user_def
    updateAuthenticatorCounter_spec_def storedCounter_def
  let ?ck = "\<lparr> challenge = ''challenge-A'', ck_providerAccountId = None \<rparr>"
  have k1: "verifyAuthentication demo_env demo_options demo_cookies (demo_response ''valid'' 4)
       (demo_store 5) =
     (Returned (Data \<lparr> ud_user = demo_user, ud_account = demo_account,
                        ud_authenticator = None \<rparr>),
      [Adapter_call ''getAuthenticator'', Adapter_call ''updateAuthenticatorCounter'',
       Log_error (AdapterError (Caught (Collab ''Counter did not increase''))),
       Adapter_call ''getUserByAccount''],
      demo_store 5)"
    using counter_update_nonfatal_and_monotone
      [where opts = demo_options and a = memoryAdapter and r = "demo_response ''valid'' 4"
         and rid = "''C''" and env = demo_env and cks = demo_cookies and ck = ?ck
         and ga = memory_getAuthenticator and s = "demo_store 5"
         and au = "demo_authenticator 5"
         and v = "\<lparr> av_verified = True, av_newCounter = 4 \<rparr>"
         and upd = updateAuthenticatorCounter_spec
         and failure = "Some (Collab ''Counter did not increase'')" and sa = "demo_store 5"
         and gu = memory_getUserByAccount and u = demo_user
         and mopts = demo_options and ms = "demo_store 5"]
    by (simp add: fixture)
  have k2: "fst (verifyAuthentication demo_env demo_options demo_cookies
       (demo_response ''valid'' 6) (demo_store 5)) =
     Returned (Data \<lparr> ud_user = demo_user, ud_account = demo_account,
                       ud_authenticator = None \<rparr>)
     \<and> storedCounter (demo_store 5) [67] = Some 5
     \<and> storedCounter
       (snd (snd (verifyAuthentication demo_env demo_options demo_cookies
          (demo_response ''valid'' 6) (demo_store 5)))) [67] = Some 6"
    using counter_update_nonfatal_and_monotone
      [where opts = demo_options and a = memoryAdapter and r = "demo_response ''valid'' 6"
         and rid = "''C''" and env = demo_env and cks = demo_cookies and ck = ?ck
         and ga = memory_getAuthenticator and s = "demo_store 5"
         and au = "demo_authenticator 5"
         and v = "\<lparr> av_verified = True, av_newCounter = 6 \<rparr>"
         and upd = updateAuthenticatorCounter_spec
         and failure = None and sa = "demo_store 6"
         and gu = memory_getUserByAccount and u = demo_user
         and mopts = demo_options and ms = "demo_store 5"]
    by (simp add: fixture)
  from k1 k2 show ?thesis by blast
qed


section \<open>Verification of a registration response\<close>

text \<open>
  Claim C5 (amended). When \<^verbatim>\<open>email\<close> is a string, the response is an object with a
  string \<^verbatim>\<open>id\<close>, the decoded challenge cookie carries a non-empty
  \<^verbatim>\<open>providerAccountId\<close>, the ceremony library reports \<^verbatim>\<open>verified\<close> with registration
  info, and the response has the \<^verbatim>\<open>response\<close> member that the cast to
  \<^verbatim>\<open>RegistrationResponseJSON\<close> assumes, \<^verbatim>\<open>verifyRegistration\<close> returns exactly: the
  user \<^verbatim>\<open>{id: email, email, emailVerified: null}\<close>; the account with
  \<^verbatim>\<open>userId: email\<close>, \<^verbatim>\<open>type: provider.type\<close>, \<^verbatim>\<open>provider: provider.id\<close> and the
  \<^verbatim>\<open>providerAccountId\<close> of the cookie; and the authenticator built from the
  verification result and the transports of the response; nothing is logged. For a
  provider made by \<^verbatim>\<open>Passkey(config)\<close> the type is \<^verbatim>\<open>"passkey"\<close> and the id is
  \<^verbatim>\<open>"passkey"\<close> unless the configuration gives another id. An \<^verbatim>\<open>email\<close> that is not
  a string, or a cookie whose \<^verbatim>\<open>providerAccountId\<close> is missing or empty, yields an
  error string.
\<close>

theorem verifyRegistration_result:
  "((\<forall>em. email \<noteq> JStr em) \<longrightarrow>
      verifyRegistration env opts cks r email =
        (Returned (Str ''Email is required for registration.''), []))
   \<and> (email = JStr em \<and> responseId r = Some rid \<and>
        decodeSignedCookie env ''challenge'' cks = Some ck \<and>
        \<not> truthy (ck_providerAccountId ck) \<longrightarrow>
        verifyRegistration env opts cks r email =
          (Returned (Str ''Missing providerAccountId from challenge cookie.''), []))
   \<and> (email = JStr em \<and> responseId r = Some rid \<and>
        decodeSignedCookie env ''challenge'' cks = Some ck \<and>
        ck_providerAccountId ck = Some pid \<and> pid \<noteq> [] \<and>
        verifyRegistrationResponse env
          \<lparr> vr_response = r, vr_expectedChallenge = challenge ck,
            vr_expectedOrigin = rp_origin (relayingParty (provider opts)),
            vr_expectedRPID = rp_id (relayingParty (provider opts)),
            vr_requireUserVerification = True \<rparr> = Inr v \<and>
        rv_verified v \<and> rv_registrationInfo v = Some info \<and>
        js_member r ''response'' = Inr inner \<and> js_member inner ''transports'' = Inr tr \<longrightarrow>
        verifyRegistration env opts cks r email =
          (Returned (Data
             \<lparr> ud_user =
                 \<lparr> u_id = em, u_name = None, u_email = em, u_emailVerified = None \<rparr>,
               ud_account =
                 \<lparr> acc_userId = em, acc_type = p_type (provider opts),
                   acc_provider = p_id (provider opts), acc_providerAccountId = pid \<rparr>,
               ud_authenticator = Some
                 \<lparr> providerAccountId = pid,
                   counter = ri_counter info,
                   credentialID = ri_credentialID info,
                   credentialBackedUp = ri_credentialBackedUp info,
                   credentialDeviceType = ri_credentialDeviceType info,
                   credentialPublicKey = ri_credentialPublicKey info,
                   transports = tr \<rparr> \<rparr>), []))
   \<and> p_type (Passkey config) = ''passkey''
   \<and> p_id (Passkey config) = (case in_id config of None \<Rightarrow> ''passkey'' | Some i \<Rightarrow> i)"
proof -
  have nostring: "(\<forall>em. email \<noteq> JStr em) \<longrightarrow>
      verifyRegistration env opts cks r email =
        (Returned (Str ''Email is required for registration.''), [])"
    by (cases email) (simp_all add: verifyRegistration_def)
  have nopid: "email = JStr em \<and> responseId r = Some rid \<and>
        decodeSignedCookie env ''challenge'' cks = Some ck \<and>
        \<not> truthy (ck_providerAccountId ck) \<longrightarrow>
        verifyRegistration env opts cks r email =
          (Returned (Str ''Missing providerAccountId from challenge cookie.''), [])"
    by (simp add: verifyRegistration_def)
  have ok: "email = JStr em \<and> responseId r = Some rid \<and>
        decodeSignedCookie env ''challenge'' cks = Some ck \<and>
        ck_providerAccountId ck = Some pid \<and> pid \<noteq> [] \<and>
        verifyRegistrationResponse env
          \<lparr> vr_response = r, vr_expectedChallenge = challenge ck,
            vr_expectedOrigin = rp_origin (relayingParty (provider opts)),
            vr_expectedRPID = rp_id (relayingParty (provider opts)),
            vr_requireUserVerification = True \<rparr> = Inr v \<and>
        rv_verified v \<and> rv_registrationInfo v = Some info \<and>
        js_member r ''response'' = Inr inner \<and> js_member inner ''transports'' = Inr tr \<longrightarrow>
        verifyRegistration env opts cks r email =
          (Returned (Data
             \<lparr> ud_user =
                 \<lparr> u_id = em, u_name = None, u_email = em, u_emailVerified = None \<rparr>,
               ud_account =
                 \<lparr> acc_userId = em, acc_type = p_type (provider opts),
                   acc_provider = p_id (provider opts), acc_providerAccountId = pid \<rparr>,
               ud_authenticator = Some
                 \<lparr> providerAccountId = pid,
                   counter = ri_counter info,
                   credentialID = ri_credentialID info,
                   credentialBackedUp = ri_credentialBackedUp info,
                   credentialDeviceType = ri_credentialDeviceType info,
                   credentialPublicKey = ri_credentialPublicKey info,
                   transports = tr \<rparr> \<rparr>), [])"
    by (simp add: verifyRegistration_def)
  have passkey: "p_type (Passkey config) = ''passkey'' \<and>
      p_id (Passkey config) = (case in_id config of None \<Rightarrow> ''passkey'' | Some i \<Rightarrow> i)"
    by (simp add: Passkey_def)
  from nostring nopid ok passkey show ?thesis by blast
qed

text \<open>A registration that succeeds, one without a string email, one whose cookie has no providerAccountId.\<close>

theorem verifyRegistration_result_witness:
  "verifyRegistration demo_env demo_options demo_registration_cookies
       (demo_response ''valid'' 0) JNull =
     (Returned (Str ''Email is required for registration.''), [])
   \<and> verifyRegistration demo_env demo_options demo_cookies (demo_response ''valid'' 0)
       (JStr ''new@x.com'') =
     (Returned (Str ''Missing providerAccountId from challenge cookie.''), [])
   \<and> verifyRegistration demo_env demo_options demo_registration_cookies
       (demo_response ''valid'' 0) (JStr ''new@x.com'') =
     (Returned (Data
        \<lparr> ud_user = \<lparr> u_id = ''new@x.com'', u_name = None, u_email = ''new@x.com'',
                       u_emailVerified = None \<rparr>,
          ud_account = \<lparr> acc_userId = ''new@x.com'', acc_type = ''passkey'',
                          acc_provider = ''passkey'', acc_providerAccountId = ''pa9'' \<rparr>,
          ud_authenticator = Some
            \<lparr> providerAccountId = ''pa9'', counter = 0, credentialID = [1, 2, 3],
              credentialBackedUp = False, credentialDeviceType = ''singleDevice'',
              credentialPublicKey = [9, 9], transports = JArr [JStr ''usb''] \<rparr> \<rparr>), [])"
proof -
  let ?info = "\<lparr> ri_counter = 0, ri_credentialID = [1, 2, 3], ri_credentialBackedUp = False,
      ri_credentialDeviceType = ''singleDevice'', ri_credentialPublicKey = [9, 9] \<rparr>"
  let ?v = "\<lparr> rv_verified = True, rv_registrationInfo = Some ?info \<rparr>"
  let ?config = "\<lparr> in_id = None, in_name = None, in_type = None,
      in_relayingParty = demo_relayingParty \<rparr>"
  have k1: "verifyRegistration demo_env demo_options demo_registration_cookies
       (demo_response ''valid'' 0) JNull =
     (Returned (Str ''Email is required for registration.''), [])"
    using verifyRegistration_result
      [where env = demo_env and opts = demo_options and cks = demo_registration_cookies
         and r = "demo_response ''valid'' 0" and email = JNull and em = "[]" and rid = "''C''"
         and ck = "\<lparr> challenge = ''challenge-R'', ck_providerAccountId = Some ''pa9'' \<rparr>"
         and pid = "''pa9''" and v = ?v and info = ?info
         and inner = "JObj [(''transports'', JArr [JStr ''usb''])]"
         and tr = "JArr [JStr ''usb'']" and config = ?config]
    by simp
  have k2: "verifyRegistration demo_env demo_options demo_cookies (demo_response ''valid'' 0)
       (JStr ''new@x.com'') =
     (Returned (Str ''Missing providerAccountId from challenge cookie.''), [])"
    using verifyRegistration_result
      [where env = demo_env and opts = demo_options and cks = demo_cookies
         and r = "demo_response ''valid'' 0" and email = "JStr ''new@x.com''"
         and em = "''new@x.com''" and rid = "''C''"
         and ck = "\<lparr> challenge = ''challenge-A'', ck_providerAccountId = None \<rparr>"
         and pid = "''pa9''" and v = ?v and info = ?info
         and inner = "JObj [(''transports'', JArr [JStr ''usb''])]"
         and tr = "JArr [JStr ''usb'']" and config = ?config]
    by (simp add: demo_deployment)
  have k3: "verifyRegistration demo_env demo_options demo_registration_cookies
       (demo_response ''valid'' 0) (JStr ''new@x.com'') =
     (Returned (Data
        \<lparr> ud_user = \<lparr> u_id = ''new@x.com'', u_name = None, u_email = ''new@x.com'',
                       u_emailVerified = None \<rparr>,
          ud_account = \<lparr> acc_userId = ''new@x.com'', acc_type = ''passkey'',
                          acc_provider = ''passkey'', acc_providerAccountId = ''pa9'' \<rparr>,
          ud_authenticator = Some
            \<lparr> providerAccountId = ''pa9'', counter = 0, credentialID = [1, 2, 3],
              credentialBackedUp = False, credentialDeviceType = ''singleDevice'',
              credentialPublicKey = [9, 9], transports = JArr [JStr ''usb''] \<rparr> \<rparr>), [])"
    using verifyRegistration_result
      [where env = demo_env and opts = demo_options and cks = demo_registration_cookies
         and r = "demo_response ''valid'' 0" and email = "JStr ''new@x.com''"
         and em = "''new@x.com''" and rid = "''C''"
         and ck = "\<lparr> challenge = ''challenge-R'', ck_providerAccountId = Some ''pa9'' \<rparr>"
         and pid = "''pa9''" and v = ?v and info = ?info
         and inner = "JObj [(''transports'', JArr [JStr ''usb''])]"
         and tr = "JArr [JStr ''usb'']" and config = ?config]
    by (simp add: demo_deployment)
  from k1 k2 k3 show ?thesis by blast
qed

text \<open>
  Claim C5 as stated has the account's provider be \<^verbatim>\<open>"passkey"\<close>. A provider
  configured with \<^verbatim>\<open>id: "webauthn"\<close> gives an account whose provider is
  \<^verbatim>\<open>"webauthn"\<close>, every premise of the claim being met.
\<close>

theorem verifyRegistration_provider_counterexample:
  "fst (verifyRegistration demo_env
      (demo_options\<lparr> provider :=
         Passkey \<lparr> in_id = Some ''webauthn'', in_name = None, in_type = None,
                   in_relayingParty = demo_relayingParty \<rparr> \<rparr>)
      demo_registration_cookies (demo_response ''valid'' 0) (JStr ''new@x.com'')) =
   Returned (Data
     \<lparr> ud_user = \<lparr> u_id = ''new@x.com'', u_name = None, u_email = ''new@x.com'',
                    u_emailVerified = None \<rparr>,
       ud_account = \<lparr> acc_userId = ''new@x.com'', acc_type = ''passkey'',
                       acc_provider = ''webauthn'', acc_providerAccountId = ''pa9'' \<rparr>,
       ud_authenticator = Some
         \<lparr> providerAccountId = ''pa9'', counter = 0, credentialID = [1, 2, 3],
           credentialBackedUp = False, credentialDeviceType = ''singleDevice'',
           credentialPublicKey = [9, 9], transports = JArr [JStr ''usb''] \<rparr> \<rparr>)
   \<and> ''webauthn'' \<noteq> ''passkey''"
  by (simp add: verifyRegistration_def demo_env_def demo_options_def Passkey_def
        demo_registration_cookies_def demo_response_def demo_member_def)


section \<open>Issuing options\<close>

text \<open>
  Claim C8 (amended). Whatever \<^verbatim>\<open>getUserAndAuthenticators\<close> returns for the email, as
  authenticators and user: \<^verbatim>\<open>registrationOptions\<close> asks the library for creation
  options whose \<^verbatim>\<open>excludeCredentials\<close> are those authenticators, each as
  \<^verbatim>\<open>{id: credentialID, type: "public-key", transports}\<close>, whose user id is the existing
  user's id or a fresh \<^verbatim>\<open>randomString(32)\<close> when there is no user, with
  \<^verbatim>\<open>residentKey = "preferred"\<close>, \<^verbatim>\<open>userVerification = "preferred"\<close>,
  \<^verbatim>\<open>requireResidentKey = true\<close>; \<^verbatim>\<open>authenticationOptions\<close> asks for request options
  whose \<^verbatim>\<open>allowCredentials\<close> are the same list. For a capable adapter the list is what
  the adapter lists for the passkey account of the user with that email, also when
  that listing is empty; it is absent exactly when no email is supplied, no user has
  it, the user has no account of this provider, or the adapter gives no listing for the
  account.
\<close>

theorem issuance_requests:
  "(getUserAndAuthenticators opts email s = Returned (auths, user) \<longrightarrow>
      registrationOptions env opts email s =
        Returned (generateRegistrationOptions env
          \<lparr> gr_userID = (case user of None \<Rightarrow> randomString env 32 | Some u \<Rightarrow> u_id u),
            gr_userName =
              (case user of
                 None \<Rightarrow> email
               | Some u \<Rightarrow> (case u_name u of None \<Rightarrow> Some (u_email u) | Some n \<Rightarrow> Some n)),
            gr_userDisplayName =
              (case user of
                 None \<Rightarrow> email
               | Some u \<Rightarrow> (case u_name u of None \<Rightarrow> Some (u_email u) | Some n \<Rightarrow> Some n)),
            gr_rpID = rp_id (relayingParty (provider opts)),
            gr_rpName = rp_name (relayingParty (provider opts)),
            gr_excludeCredentials = map_option
                (map (\<lambda>a. \<lparr> cd_id = credentialID a, cd_type = ''public-key'',
                             cd_transports = transports a \<rparr>)) auths,
            gr_authenticatorSelection =
              \<lparr> residentKey = ''preferred'', userVerification = ''preferred'',
                requireResidentKey = True \<rparr> \<rparr>)
      \<and> authenticationOptions env opts email s =
        Returned (generateAuthenticationOptions env
          \<lparr> ga_rpID = rp_id (relayingParty (provider opts)),
            ga_allowCredentials = map_option
                (map (\<lambda>a. \<lparr> cd_id = credentialID a, cd_type = ''public-key'',
                             cd_transports = transports a \<rparr>)) auths,
            ga_userVerification = ''preferred'' \<rparr>))
   \<and> (adapter opts = Some a \<and> getUserByEmail a = Some gue \<and>
       listLinkedAccounts a = Some lla \<and> listAuthenticatorsByAccountId a = Some laa \<longrightarrow>
        (\<not> truthy email \<longrightarrow> getUserAndAuthenticators opts email s = Returned (None, None))
      \<and> (email = Some e \<and> e \<noteq> [] \<and> gue e s = Inr None \<longrightarrow>
           getUserAndAuthenticators opts email s = Returned (None, None))
      \<and> (email = Some e \<and> e \<noteq> [] \<and> gue e s = Inr (Some u) \<and> lla (u_id u) s = Inr accs \<and>
          find (\<lambda>acc. acc_provider acc = p_id (provider opts))
            (case accs of None \<Rightarrow> [] | Some l \<Rightarrow> l) = None \<longrightarrow>
           getUserAndAuthenticators opts email s = Returned (None, Some u))
      \<and> (email = Some e \<and> e \<noteq> [] \<and> gue e s = Inr (Some u) \<and> lla (u_id u) s = Inr accs \<and>
          find (\<lambda>acc. acc_provider acc = p_id (provider opts))
            (case accs of None \<Rightarrow> [] | Some l \<Rightarrow> l) = Some acc \<and>
          laa (acc_providerAccountId acc) s = Inr listed \<longrightarrow>
           getUserAndAuthenticators opts email s = Returned (listed, Some u)))"
proof -
  have mapping: "descriptor = (\<lambda>a. \<lparr> cd_id = credentialID a, cd_type = ''public-key'',
      cd_transports = transports a \<rparr>)"
    by (rule ext) (simp add: descriptor_def)
  have req: "getUserAndAuthenticators opts email s = Returned (auths, user) \<longrightarrow>
      registrationOptions env opts email s =
        Returned (generateRegistrationOptions env
          \<lparr> gr_userID = (case user of None \<Rightarrow> randomString env 32 | Some u \<Rightarrow> u_id u),
            gr_userName =
              (case user of
                 None \<Rightarrow> email
               | Some u \<Rightarrow> (case u_name u of None \<Rightarrow> Some (u_email u) | Some n \<Rightarrow> Some n)),
            gr_userDisplayName =
              (case user of
                 None \<Rightarrow> email
               | Some u \<Rightarrow> (case u_name u of None \<Rightarrow> Some (u_email u) | Some n \<Rightarrow> Some n)),
            gr_rpID = rp_id (relayingParty (provider opts)),
            gr_rpName = rp_name (relayingParty (provider opts)),
            gr_excludeCredentials = map_option
                (map (\<lambda>a. \<lparr> cd_id = credentialID a, cd_type = ''public-key'',
                             cd_transports = transports a \<rparr>)) auths,
            gr_authenticatorSelection =
              \<lparr> residentKey = ''preferred'', userVerification = ''preferred'',
                requireResidentKey = True \<rparr> \<rparr>)
      \<and> authenticationOptions env opts email s =
        Returned (generateAuthenticationOptions env
          \<lparr> ga_rpID = rp_id (relayingParty (provider opts)),
            ga_allowCredentials = map_option
                (map (\<lambda>a. \<lparr> cd_id = credentialID a, cd_type = ''public-key'',
                             cd_transports = transports a \<rparr>)) auths,
            ga_userVerification = ''preferred'' \<rparr>)"
    by (simp add: registrationOptions_def authenticationOptions_def Let_def mapping
          split: option.split)
  have impl: "getUserByEmail a = Some gue \<and>
       listLinkedAccounts a = Some lla \<and> listAuthenticatorsByAccountId a = Some laa \<Longrightarrow>
       assertAdapterImplementsMethods
         ''WebaAuthn getUserAndAuthenticators requires an adapter that implements'' a
         [''getUserByEmail'', ''listLinkedAccounts'', ''listAuthenticatorsByAccountId''] = None"
    by (simp add: assert_issuance implementsIssuance_def)
  have reads: "adapter opts = Some a \<and> getUserByEmail a = Some gue \<and>
       listLinkedAccounts a = Some lla \<and> listAuthenticatorsByAccountId a = Some laa \<longrightarrow>
        (\<not> truthy email \<longrightarrow> getUserAndAuthenticators opts email s = Returned (None, None))
      \<and> (email = Some e \<and> e \<noteq> [] \<and> gue e s = Inr None \<longrightarrow>
           getUserAndAuthenticators opts email s = Returned (None, None))
      \<and> (email = Some e \<and> e \<noteq> [] \<and> gue e s = Inr (Some u) \<and> lla (u_id u) s = Inr accs \<and>
          find (\<lambda>acc. acc_provider acc = p_id (provider opts))
            (case accs of None \<Rightarrow> [] | Some l \<Rightarrow> l) = None \<longrightarrow>
           getUserAndAuthenticators opts email s = Returned (None, Some u))
      \<and> (email = Some e \<and> e \<noteq> [] \<and> gue e s = Inr (Some u) \<and> lla (u_id u) s = Inr accs \<and>
          find (\<lambda>acc. acc_provider acc = p_id (provider opts))
            (case accs of None \<Rightarrow> [] | Some l \<Rightarrow> l) = Some acc \<and>
          laa (acc_providerAccountId acc) s = Inr listed \<longrightarrow>
           getUserAndAuthenticators opts email s = Returned (listed, Some u))"
    using impl
    by (cases email; cases accs)
       (simp_all add: getUserAndAuthenticators_def call_def invoke_def)
  show ?thesis by (intro conjI) (fact req, fact reads)
qed

text \<open>
  A registered email with two authenticators, no email, and an email nobody has, with a
  ceremony library that shows what it was asked.
\<close>

theorem issuance_requests_witness:
  "getUserAndAuthenticators demo_options (Some ''exists@x.com'')
       ((demo_store 5)\<lparr> authenticators := [demo_authenticator 5, demo_second_authenticator] \<rparr>) =
     Returned (Some [demo_authenticator 5, demo_second_authenticator], Some demo_user)
   \<and> registrationOptions echo_env demo_options (Some ''exists@x.com'')
       ((demo_store 5)\<lparr> authenticators := [demo_authenticator 5, demo_second_authenticator] \<rparr>) =
     Returned
       \<lparr> co_challenge = ''challenge-R'', co_user_id = ''u1'',
         co_rest = JObj
           [(''excludeCredentials'', JArr
               [JObj [(''id'', JArr [JNum 67]), (''type'', JStr ''public-key''),
                      (''transports'', JUndefined)],
                JObj [(''id'', JArr [JNum 68]), (''type'', JStr ''public-key''),
                      (''transports'', JArr [JStr ''usb''])]]),
            (''residentKey'', JStr ''preferred''),
            (''userVerification'', JStr ''preferred''),
            (''requireResidentKey'', JBool True)] \<rparr>
   \<and> authenticationOptions echo_env demo_options (Some ''exists@x.com'')
       ((demo_store 5)\<lparr> authenticators := [demo_authenticator 5, demo_second_authenticator] \<rparr>) =
     Returned
       \<lparr> ro_challenge = ''challenge-A'',
         ro_rest = JObj
           [(''rpId'', JStr ''example.com''),
            (''allowCredentials'', JArr
               [JObj [(''id'', JArr [JNum 67]), (''type'', JStr ''public-key''),
                      (''transports'', JUndefined)],
                JObj [(''id'', JArr [JNum 68]), (''type'', JStr ''public-key''),
                      (''transports'', JArr [JStr ''usb''])]]),
            (''userVerification'', JStr ''preferred'')] \<rparr>
   \<and> getUserAndAuthenticators demo_options None (demo_store 5) = Returned (None, None)
   \<and> getUserAndAuthenticators demo_options (Some ''new@x.com'') (demo_store 5) =
     Returned (None, None)
   \<and> registrationOptions echo_env demo_options (Some ''new@x.com'') (demo_store 5) =
     Returned
       \<lparr> co_challenge = ''challenge-R'', co_user_id = replicate 32 CHR ''r'',
         co_rest = JObj
           [(''excludeCredentials'', JUndefined),
            (''residentKey'', JStr ''preferred''),
            (''userVerification'', JStr ''preferred''),
            (''requireResidentKey'', JBool True)] \<rparr>"
proof -
  let ?two = "(demo_store 5)\<lparr> authenticators := [demo_authenticator 5, demo_second_authenticator] \<rparr>"
  note store_defs = demo_options_def memoryAdapter_def demo_store_def demo_user_def
    demo_account_def demo_authenticator_def demo_second_authenticator_def demo_provider_def
    Passkey_def demo_relayingParty_def memory_getUserByEmail_def memory_listLinkedAccounts_def
    memory_listAuthenticatorsByAccountId_def
  note echo_defs = echo_env_def demo_env_def echo_credentials_def echo_descriptor_def
  note inst = issuance_requests
      [where opts = demo_options and env = echo_env
         and a = memoryAdapter and gue = memory_getUserByEmail
         and lla = memory_listLinkedAccounts and laa = memory_listAuthenticatorsByAccountId
         and u = demo_user and accs = "Some [demo_account]" and acc = demo_account]
  have g1: "getUserAndAuthenticators demo_options (Some ''exists@x.com'') ?two =
     Returned (Some [demo_authenticator 5, demo_second_authenticator], Some demo_user)"
    using inst [where s = ?two and email = "Some ''exists@x.com''" and e = "''exists@x.com''"
         and listed = "Some [demo_authenticator 5, demo_second_authenticator]"
         and auths = None and user = None]
    by (simp add: store_defs)
  have g2: "getUserAndAuthenticators demo_options None (demo_store 5) = Returned (None, None)"
    using inst [where s = "demo_store 5" and email = None and e = "[]" and listed = None
         and auths = None and user = None]
    by (simp add: demo_options_def memoryAdapter_def)
  have g3: "getUserAndAuthenticators demo_options (Some ''new@x.com'') (demo_store 5) =
     Returned (None, None)"
    using inst [where s = "demo_store 5" and email = "Some ''new@x.com''"
         and e = "''new@x.com''" and listed = None and auths = None and user = None]
    by (simp add: store_defs)
  have k: "registrationOptions echo_env demo_options (Some ''exists@x.com'') ?two =
     Returned
       \<lparr> co_challenge = ''challenge-R'', co_user_id = ''u1'',
         co_rest = JObj
           [(''excludeCredentials'', JArr
               [JObj [(''id'', JArr [JNum 67]), (''type'', JStr ''public-key''),
                      (''transports'', JUndefined)],
                JObj [(''id'', JArr [JNum 68]), (''type'', JStr ''public-key''),
                      (''transports'', JArr [JStr ''usb''])]]),
            (''residentKey'', JStr ''preferred''),
            (''userVerification'', JStr ''preferred''),
            (''requireResidentKey'', JBool True)] \<rparr>
   \<and> authenticationOptions echo_env demo_options (Some ''exists@x.com'') ?two =
     Returned
       \<lparr> ro_challenge = ''challenge-A'',
         ro_rest = JObj
           [(''rpId'', JStr ''example.com''),
            (''allowCredentials'', JArr
               [JObj [(''id'', JArr [JNum 67]), (''type'', JStr ''public-key''),
                      (''transports'', JUndefined)],
                JObj [(''id'', JArr [JNum 68]), (''type'', JStr ''public-key''),
                      (''transports'', JArr [JStr ''usb''])]]),
            (''userVerification'', JStr ''preferred'')] \<rparr>"
    using inst [where s = ?two and email = "Some ''exists@x.com''" and e = "''exists@x.com''"
         and listed = "Some [demo_authenticator 5, demo_second_authenticator]"
         and auths = "Some [demo_authenticator 5, demo_second_authenticator]"
         and user = "Some demo_user"] g1
    by (simp add: echo_defs demo_options_def demo_provider_def Passkey_def
          demo_relayingParty_def demo_user_def demo_authenticator_def
          demo_second_authenticator_def)
  have k2: "registrationOptions echo_env demo_options (Some ''new@x.com'') (demo_store 5) =
     Returned
       \<lparr> co_challenge = ''challenge-R'', co_user_id = replicate 32 CHR ''r'',
         co_rest = JObj
           [(''excludeCredentials'', JUndefined),
            (''residentKey'', JStr ''preferred''),
            (''userVerification'', JStr ''preferred''),
            (''requireResidentKey'', JBool True)] \<rparr>"
    using inst [where s = "demo_store 5" and email = "Some ''new@x.com''"
         and e = "''new@x.com''" and listed = None and auths = None and user = None] g3
    by (simp add: echo_defs)
  from g1 g2 g3 k k2 show ?thesis by simp
qed

text \<open>
  Claim C8 as stated leaves \<^verbatim>\<open>allowCredentials\<close> unrestricted unless the account has
  authenticators. For a user whose passkey account has none, the library is asked for
  an empty \<^verbatim>\<open>allowCredentials\<close> list, not for none as when no email is supplied.
\<close>

theorem issuance_empty_listing_counterexample:
  "getUserAndAuthenticators demo_options (Some ''exists@x.com'')
       ((demo_store 5)\<lparr> authenticators := [] \<rparr>) = Returned (Some [], Some demo_user)
   \<and> authenticationOptions echo_env demo_options (Some ''exists@x.com'')
       ((demo_store 5)\<lparr> authenticators := [] \<rparr>) =
     Returned
       \<lparr> ro_challenge = ''challenge-A'',
         ro_rest = JObj [(''rpId'', JStr ''example.com''), (''allowCredentials'', JArr []),
                         (''userVerification'', JStr ''preferred'')] \<rparr>
   \<and> authenticationOptions echo_env demo_options None
       ((demo_store 5)\<lparr> authenticators := [] \<rparr>) =
     Returned
       \<lparr> ro_challenge = ''challenge-A'',
         ro_rest = JObj [(''rpId'', JStr ''example.com''), (''allowCredentials'', JUndefined),
                         (''userVerification'', JStr ''preferred'')] \<rparr>
   \<and> JArr [] \<noteq> JUndefined"
  by (simp add: issuance_defs demo_deployment echo_env_def echo_credentials_def
        echo_descriptor_def)

section \<open>Resolving the action\<close>

text \<open>The second half of the handler, once an action is selected.\<close>

lemma passkeyOptions_selected:
  "selectAction opts (sessionUserEmailOf ses) act qe s = Returned (Inr sel) \<Longrightarrow>
   passkeyOptions env opts ses act qe s = Returned resp \<Longrightarrow>
   resolutionOf resp =
     (if sel = ''authenticate'' then Authenticate
      else if sel = ''register'' then
        (if truthy (nullish (sessionUserEmailOf ses) qe) then Register
         else Error ''email is required for registration'')
      else Error ''invalid action'')
   \<and> (if status resp = 200 then cookieMatchesOptions env resp
        else resp_cookies resp = None \<and> (\<exists>m. body resp = Body_text m))"
  by (auto simp: passkeyOptions_def Let_def resolutionOf_def cookieMatchesOptions_def
        split: outcome.splits if_splits)

lemma passkeyOptions_early:
  "selectAction opts (sessionUserEmailOf ses) act qe s = Returned (Inl early) \<Longrightarrow>
   passkeyOptions env opts ses act qe s = Returned early"
  by (simp add: passkeyOptions_def Let_def)

lemma passkeyOptions_select_threw:
  "selectAction opts (sessionUserEmailOf ses) act qe s = Threw e \<Longrightarrow>
   passkeyOptions env opts ses act qe s = Threw e"
  by (simp add: passkeyOptions_def Let_def)






text \<open>
  Claim C3. Every issued response carries exactly one cookie, signed under the name
  \<^verbatim>\<open>challenge\<close>, whose payload holds the challenge of the ceremony options in the body;
  a registration issuance also stores \<^verbatim>\<open>user.id\<close> of the registration options as
  \<^verbatim>\<open>providerAccountId\<close>, an authentication issuance stores none. This holds for
  \<^verbatim>\<open>doRegister\<close> and \<^verbatim>\<open>doAuthenticate\<close> and for every status-200 response of either
  handler; the other responses set no cookie.
\<close>

theorem challenge_cookie_matches_options:
  "(doRegister env opts email s = Returned resp \<longrightarrow>
      cookieMatchesOptions env resp \<and> (\<exists>ro. body resp = Body_options (Creation ro) ''register''))
   \<and> (doAuthenticate env opts email s = Returned resp \<longrightarrow>
      cookieMatchesOptions env resp \<and> (\<exists>ao. body resp = Body_options (Request ao) ''authenticate''))
   \<and> (passkeyOptions env opts ses act qe s = Returned resp \<longrightarrow>
        (if status resp = 200 then cookieMatchesOptions env resp
         else resp_cookies resp = None \<and> (\<exists>m. body resp = Body_text m)))
   \<and> (passkeyOptions_switch env opts ses act qe s = Returned resp \<longrightarrow>
        (if status resp = 200 then cookieMatchesOptions env resp
         else resp_cookies resp = None \<and> (\<exists>m. body resp = Body_text m)))"
proof -
  have reg: "doRegister env opts email s = Returned resp \<Longrightarrow>
      cookieMatchesOptions env resp \<and> status resp = 200 \<and>
      (\<exists>ro. body resp = Body_options (Creation ro) ''register'')" for email
    by (auto simp: doRegister_def cookieMatchesOptions_def split: outcome.splits)
  have auth: "doAuthenticate env opts email s = Returned resp \<Longrightarrow>
      cookieMatchesOptions env resp \<and> status resp = 200 \<and>
      (\<exists>ao. body resp = Body_options (Request ao) ''authenticate'')" for email
    by (auto simp: doAuthenticate_def cookieMatchesOptions_def split: outcome.splits)
  have route: "if status resp = 200 then cookieMatchesOptions env resp
         else resp_cookies resp = None \<and> (\<exists>m. body resp = Body_text m)"
    if run: "passkeyOptions env opts ses act qe s = Returned resp"
  proof (cases "selectAction opts (sessionUserEmailOf ses) act qe s")
    case (Threw e)
    with run show ?thesis by (simp add: passkeyOptions_select_threw)
  next
    case (Returned x)
    show ?thesis
    proof (cases x)
      case (Inl early)
      with Returned run have "resp = early" by (simp add: passkeyOptions_early)
      moreover have "status early = 400 \<and> resp_cookies early = None \<and>
          (\<exists>m. body early = Body_text m)"
        using Returned Inl
        by (auto simp: selectAction_def split: option.splits if_splits outcome.splits)
      ultimately show ?thesis by simp
    next
      case (Inr selected)
      with Returned run show ?thesis
        using passkeyOptions_selected [of opts ses act qe s selected env resp] by simp
    qed
  qed
  have invalid: "resp = \<lparr> status = 400, body = Body_text ''Invalid action/email combination'',
                           resp_cookies = None \<rparr> \<Longrightarrow>
      (if status resp = 200 then cookieMatchesOptions env resp
         else resp_cookies resp = None \<and> (\<exists>m. body resp = Body_text m))"
    by simp
  have switch: "if status resp = 200 then cookieMatchesOptions env resp
         else resp_cookies resp = None \<and> (\<exists>m. body resp = Body_text m)"
    if run: "passkeyOptions_switch env opts ses act qe s = Returned resp"
  proof -
    from run have "(\<exists>e. doRegister env opts e s = Returned resp) \<or>
        (\<exists>e. doAuthenticate env opts e s = Returned resp) \<or>
        resp = \<lparr> status = 400, body = Body_text ''Invalid action/email combination'',
                           resp_cookies = None \<rparr>"
      by (simp add: passkeyOptions_switch_def Let_def split: outcome.splits if_splits) blast+
    with reg auth invalid show ?thesis by (elim disjE exE) simp_all
  qed
  from reg auth route switch show ?thesis by blast
qed

text \<open>A registration and an authentication issued by the concrete deployment, through both handlers.\<close>

theorem challenge_cookie_matches_options_witness:
  "doRegister demo_env demo_options (Some ''new@x.com'') (demo_store 5) =
     Returned
       \<lparr> status = 200,
         body = Body_options
           (Creation \<lparr> co_challenge = ''challenge-R'', co_user_id = replicate 32 CHR ''r'',
                       co_rest = JNull \<rparr>) ''register'',
         resp_cookies = Some [signCookie demo_env ''challenge''
           \<lparr> challenge = ''challenge-R'',
             ck_providerAccountId = Some (replicate 32 CHR ''r'') \<rparr>] \<rparr>
   \<and> doAuthenticate demo_env demo_options (Some ''exists@x.com'') (demo_store 5) =
     Returned
       \<lparr> status = 200,
         body = Body_options (Request \<lparr> ro_challenge = ''challenge-A'', ro_rest = JNull \<rparr>)
                  ''authenticate'',
         resp_cookies = Some [signCookie demo_env ''challenge''
           \<lparr> challenge = ''challenge-A'', ck_providerAccountId = None \<rparr>] \<rparr>
   \<and> passkeyOptions demo_env demo_options None None (Some ''new@x.com'') (demo_store 5) =
       doRegister demo_env demo_options (Some ''new@x.com'') (demo_store 5)
   \<and> passkeyOptions_switch demo_env demo_options None None (Some ''exists@x.com'')
         (demo_store 5) =
       doAuthenticate demo_env demo_options (Some ''exists@x.com'') (demo_store 5)
   \<and> cookieMatchesOptions demo_env
       \<lparr> status = 200,
         body = Body_options
           (Creation \<lparr> co_challenge = ''challenge-R'', co_user_id = replicate 32 CHR ''r'',
                       co_rest = JNull \<rparr>) ''register'',
         resp_cookies = Some [signCookie demo_env ''challenge''
           \<lparr> challenge = ''challenge-R'',
             ck_providerAccountId = Some (replicate 32 CHR ''r'') \<rparr>] \<rparr>
   \<and> cookieMatchesOptions demo_env
       \<lparr> status = 200,
         body = Body_options (Request \<lparr> ro_challenge = ''challenge-A'', ro_rest = JNull \<rparr>)
                  ''authenticate'',
         resp_cookies = Some [signCookie demo_env ''challenge''
           \<lparr> challenge = ''challenge-A'', ck_providerAccountId = None \<rparr>] \<rparr>"
proof -
  let ?reg = "\<lparr> status = 200,
         body = Body_options
           (Creation \<lparr> co_challenge = ''challenge-R'', co_user_id = replicate 32 CHR ''r'',
                       co_rest = JNull \<rparr>) ''register'',
         resp_cookies = Some [signCookie demo_env ''challenge''
           \<lparr> challenge = ''challenge-R'',
             ck_providerAccountId = Some (replicate 32 CHR ''r'') \<rparr>] \<rparr>"
  let ?auth = "\<lparr> status = 200,
         body = Body_options (Request \<lparr> ro_challenge = ''challenge-A'', ro_rest = JNull \<rparr>)
                  ''authenticate'',
         resp_cookies = Some [signCookie demo_env ''challenge''
           \<lparr> challenge = ''challenge-A'', ck_providerAccountId = None \<rparr>] \<rparr>"
  have r1: "doRegister demo_env demo_options (Some ''new@x.com'') (demo_store 5) = Returned ?reg"
    by (simp add: doRegister_def issuance_defs demo_deployment)
  have r2: "doAuthenticate demo_env demo_options (Some ''exists@x.com'') (demo_store 5) =
      Returned ?auth"
    by (simp add: doAuthenticate_def issuance_defs demo_deployment)
  have r3: "passkeyOptions demo_env demo_options None None (Some ''new@x.com'') (demo_store 5) =
      Returned ?reg"
    by (simp add: passkeyOptions_def selectAction_def sessionUserEmailOf_def nullish_def
          issuance_defs demo_deployment)
  have r4: "passkeyOptions_switch demo_env demo_options None None (Some ''exists@x.com'')
      (demo_store 5) = Returned ?auth"
    by (simp add: passkeyOptions_switch_def doAuthenticate_def sessionUserEmailOf_def
          issuance_defs demo_deployment)
  have k1: "cookieMatchesOptions demo_env ?reg"
    using challenge_cookie_matches_options
      [where env = demo_env and opts = demo_options and email = "Some ''new@x.com''"
         and s = "demo_store 5" and resp = ?reg and ses = None and act = None
         and qe = "Some ''new@x.com''"] r1 r3
    by simp
  have k2: "cookieMatchesOptions demo_env ?auth"
    using challenge_cookie_matches_options
      [where env = demo_env and opts = demo_options and email = "Some ''exists@x.com''"
         and s = "demo_store 5" and resp = ?auth and ses = None and act = None
         and qe = "Some ''exists@x.com''"] r2 r4
    by simp
  from r1 r2 r3 r4 k1 k2 show ?thesis by simp
qed

text \<open>
  Claim C9. The switch-based handler and the handler of routes/passkey-options.ts are
  not extensionally equal: on the request of an anonymous caller with no action and no
  email they differ, whatever the collaborators and the storage are (the first issues
  authentication options or throws, the second answers 400
  \<^verbatim>\<open>"email is required to register"\<close>). In the concrete deployment they also differ
  on an explicit \<^verbatim>\<open>"register"\<close> of a logged-in user with another query email: the
  first answers 400 \<^verbatim>\<open>"Invalid action/email combination"\<close>, the second issues
  registration options for the session's email.
\<close>

theorem resolvers_differ:
  "passkeyOptions_switch env opts None None None s \<noteq> passkeyOptions env opts None None None s
   \<and> passkeyOptions_switch demo_env demo_options
         (Some \<lparr> s_user = Some \<lparr> su_email = Some ''exists@x.com'' \<rparr> \<rparr>)
         (Some ''register'') (Some ''other@x.com'') (demo_store 5) \<noteq>
       passkeyOptions demo_env demo_options
         (Some \<lparr> s_user = Some \<lparr> su_email = Some ''exists@x.com'' \<rparr> \<rparr>)
         (Some ''register'') (Some ''other@x.com'') (demo_store 5)"
proof -
  have route: "passkeyOptions env opts None None None s =
      Returned \<lparr> status = 400, body = Body_text ''email is required to register'',
                 resp_cookies = None \<rparr>"
    by (simp add: passkeyOptions_def selectAction_def sessionUserEmailOf_def nullish_def)
  have switch: "passkeyOptions_switch env opts None None None s = doAuthenticate env opts None s"
    by (simp add: passkeyOptions_switch_def sessionUserEmailOf_def)
  have "doAuthenticate env opts None s \<noteq>
      Returned \<lparr> status = 400, body = Body_text ''email is required to register'',
                 resp_cookies = None \<rparr>"
    by (auto simp: doAuthenticate_def split: outcome.splits)
  with route switch have general:
    "passkeyOptions_switch env opts None None None s \<noteq> passkeyOptions env opts None None None s"
    by simp
  let ?ses = "Some \<lparr> s_user = Some \<lparr> su_email = Some ''exists@x.com'' \<rparr> \<rparr>"
  have sw: "passkeyOptions_switch demo_env demo_options ?ses (Some ''register'')
      (Some ''other@x.com'') (demo_store 5) =
      Returned \<lparr> status = 400, body = Body_text ''Invalid action/email combination'',
                 resp_cookies = None \<rparr>"
    by (simp add: passkeyOptions_switch_def sessionUserEmailOf_def issuance_defs
          demo_deployment)
  have rt: "passkeyOptions demo_env demo_options ?ses (Some ''register'')
      (Some ''other@x.com'') (demo_store 5) =
      Returned
        \<lparr> status = 200,
          body = Body_options
            (Creation \<lparr> co_challenge = ''challenge-R'', co_user_id = ''u1'',
                        co_rest = JNull \<rparr>) ''register'',
          resp_cookies = Some [\<lparr> cookie_name = ''challenge'',
                                  cookie_value = ''challenge-R|u1'' \<rparr>] \<rparr>"
    by (simp add: passkeyOptions_def selectAction_def sessionUserEmailOf_def nullish_def
          issuance_defs demo_deployment)
  from general sw rt show ?thesis by simp
qed


end
